theory Spec2Isabelle
  imports Complex_Main "HOL-Library.Sublist"
begin

section \<open>JavaScript primitives used by the enemy editor\<close>

text \<open>
  The editor (\<^verbatim>\<open>tools/enemy_editor/static/app.js\<close>) is a single-threaded, event-driven
  page script. Its module variables and the part of the page it reads and writes are
  modelled as one state record; every function of the script becomes a function on that
  state, and every callback the browser may run (a timer firing, an image load finishing,
  a user action) becomes an event of a step function.

  The source file holds two revisions of the script, one after the other; the model
  follows the first, current one.

  Numbers: the animation cursors hold small integers, and so do the weapon offsets of
  every record the editor writes (it reads them with \<^verbatim>\<open>parseInt\<close>); both are modelled
  as \<^typ>\<open>int\<close>. Scales and canvas coordinates are modelled as exact rationals (the two
  scale factors applied to offsets, 160/256 and 500/256, are dyadic, so the products of the
  source are exact for integer offsets).
\<close>

text \<open>The remainder operator \<^verbatim>\<open>%\<close>: the result has the sign of the dividend.\<close>

definition js_rem :: "int \<Rightarrow> int \<Rightarrow> int" where
  "js_rem a b = sgn a * (\<bar>a\<bar> mod \<bar>b\<bar>)"

subsection \<open>Strings\<close>

text \<open>
  A string is modelled by the list of the bytes of its UTF-8 encoding. The operations
  defined here search for ASCII characters only, and an ASCII byte never occurs inside the
  encoding of another character, so they do on the bytes what the script's operations do
  on the string.
\<close>

text \<open>
  \<^verbatim>\<open>s.replace(pat, rep)\<close> with a string pattern: only the first occurrence of
  \<^verbatim>\<open>pat\<close> is replaced (the replacement strings of the source contain no \<^verbatim>\<open>$\<close>).
\<close>

fun replace :: "string \<Rightarrow> string \<Rightarrow> string \<Rightarrow> string" where
  "replace [] pat rep = (if pat = [] then rep else [])"
| "replace (c # cs) pat rep =
     (if prefix pat (c # cs) then rep @ drop (length pat) (c # cs)
      else c # replace cs pat rep)"

text \<open>\<^verbatim>\<open>s.includes(sub)\<close>: the substring test.\<close>

fun includes_str :: "string \<Rightarrow> string \<Rightarrow> bool" where
  "includes_str [] sub = (sub = [])"
| "includes_str (c # cs) sub = (prefix sub (c # cs) \<or> includes_str cs sub)"

text \<open>\<^verbatim>\<open>s.split(sep)\<close> for a one-character separator, and \<^verbatim>\<open>pop()\<close> on its result.\<close>

fun split_str :: "string \<Rightarrow> char \<Rightarrow> string list" where
  "split_str [] sep = [[]]"
| "split_str (c # cs) sep =
     (if c = sep then [] # split_str cs sep
      else (case split_str cs sep of
              [] \<Rightarrow> [[c]]
            | p # ps \<Rightarrow> (c # p) # ps))"

definition pop :: "string list \<Rightarrow> string" where
  "pop xs = (if xs = [] then [] else last xs)"

text \<open>Printing an integer in decimal, and \<^verbatim>\<open>Array.prototype.join\<close> on numbers.\<close>

definition digit_char :: "nat \<Rightarrow> char" where
  "digit_char n = char_of (48 + n)"

fun digits :: "nat \<Rightarrow> string" where
  "digits n = (if n < 10 then [digit_char n] else digits (n div 10) @ [digit_char (n mod 10)])"

definition show_int :: "int \<Rightarrow> string" where
  "show_int i = (if i < 0 then CHR ''-'' # digits (nat (- i)) else digits (nat i))"

fun join :: "int list \<Rightarrow> string \<Rightarrow> string" where
  "join [] sep = []"
| "join [x] sep = show_int x"
| "join (x # y # ys) sep = show_int x @ sep @ join (y # ys) sep"

text \<open>Truthiness of an optional string (\<^verbatim>\<open>undefined\<close>, \<^verbatim>\<open>null\<close> and \<^verbatim>\<open>''\<close> are falsy).\<close>

definition truthy :: "string option \<Rightarrow> bool" where
  "truthy v = (case v of None \<Rightarrow> False | Some s \<Rightarrow> s \<noteq> [])"

text \<open>\<^verbatim>\<open>a || b\<close> on an optional string, and on an optional number (0 is falsy).\<close>

definition or_str :: "string option \<Rightarrow> string \<Rightarrow> string" where
  "or_str v d = (case v of None \<Rightarrow> d | Some s \<Rightarrow> if s = [] then d else s)"

definition or_num :: "rat option \<Rightarrow> rat \<Rightarrow> rat" where
  "or_num v d = (case v of None \<Rightarrow> d | Some x \<Rightarrow> if x = 0 then d else x)"

text \<open>
  Four functions belong to the platform, not to the script, and are parameters of the
  model: \<^verbatim>\<open>parseFloat\<close> and \<^verbatim>\<open>parseInt\<close> (\<open>None\<close> stands for \<^verbatim>\<open>NaN\<close>);
  \<^verbatim>\<open>String.prototype.toLowerCase\<close>, which lower-cases every cased character of
  Unicode; and \<open>attribute_value\<close>, the value the HTML parser reads back from a text that
  was written between the double quotes of an attribute (it ends at the first double
  quote, and character references are decoded).
\<close>

record platform =
  parseFloat :: "string \<Rightarrow> rat option"
  parseInt :: "string \<Rightarrow> int option"
  toLowerCase :: "string \<Rightarrow> string"
  attribute_value :: "string \<Rightarrow> string"

text \<open>
  What the platform functions are instantiated with when a run is evaluated. The two
  parsers read unsigned decimal literals (digits, optionally a point and more digits);
  lower-casing maps the ASCII capitals and passes every other byte through; the attribute
  value ends at the first double quote and has \<^verbatim>\<open>&amp;\<close> decoded. Each agrees with the
  platform on the texts it is applied to in the evaluated runs: decimal literals, ASCII
  texts, and texts whose only ampersands begin \<^verbatim>\<open>&amp;\<close>.
\<close>

fun nat_of_digits :: "nat \<Rightarrow> string \<Rightarrow> nat option" where
  "nat_of_digits acc [] = Some acc"
| "nat_of_digits acc (c # cs) =
     (let n = (of_char c :: nat) in
      if 48 \<le> n \<and> n \<le> 57 then nat_of_digits (10 * acc + (n - 48)) cs else None)"

definition decimal_int :: "string \<Rightarrow> int option" where
  "decimal_int s =
     (let ds = takeWhile (\<lambda>c. c \<noteq> CHR ''.'') s in
      if ds = [] then None else map_option int (nat_of_digits 0 ds))"

definition decimal_float :: "string \<Rightarrow> rat option" where
  "decimal_float s =
     (let ds = takeWhile (\<lambda>c. c \<noteq> CHR ''.'') s;
          fs = drop (length ds + 1) s
      in if ds = [] then None
         else (case (nat_of_digits 0 ds, nat_of_digits 0 fs) of
                 (Some a, Some b) \<Rightarrow> Some (of_nat a + of_nat b / 10 ^ length fs)
               | _ \<Rightarrow> None))"

definition ascii_toLowerCase_char :: "char \<Rightarrow> char" where
  "ascii_toLowerCase_char c =
     (let n = (of_char c :: nat) in if 65 \<le> n \<and> n \<le> 90 then char_of (n + 32) else c)"

definition ascii_toLowerCase :: "string \<Rightarrow> string" where
  "ascii_toLowerCase s = map ascii_toLowerCase_char s"

fun basic_attribute_value :: "string \<Rightarrow> string" where
  "basic_attribute_value [] = []"
| "basic_attribute_value (c # cs) =
     (if c = CHR 0x22 then []
      else if prefix ''&amp;'' (c # cs) then CHR ''&'' # basic_attribute_value (drop 4 cs)
      else c # basic_attribute_value cs)"

definition decimal_platform :: platform where
  "decimal_platform =
     \<lparr>parseFloat = decimal_float, parseInt = decimal_int,
      toLowerCase = ascii_toLowerCase, attribute_value = basic_attribute_value\<rparr>"

section \<open>Data model\<close>

text \<open>A loaded image is identified by the URL it was requested from.\<close>

type_synonym image = string

text \<open>The (frame, direction) cursor into the 4 x 8 grid of a sprite sheet.\<close>

record cursor =
  frame :: int
  direction :: int

datatype attack_kind = Melee | Ranged

text \<open>
  An enemy record as the backend sends it. Every attribute may be absent (\<open>None\<close>),
  which is what the \<^verbatim>\<open>||\<close> defaults of the script are for. The attack type is one
  of the two radio values.
\<close>

record enemy =
  e_name :: "string option"
  e_sprite_path :: "string option"
  e_weapon_path :: "string option"
  e_weapon_offset :: "int list option"
  e_projectile_path :: "string option"
  e_sprite_scale :: "rat option"
  e_max_health :: "rat option"
  e_damage :: "rat option"
  e_speed :: "rat option"
  e_attack_type :: "attack_kind option"
  e_aggro_range :: "rat option"
  e_attack_range :: "rat option"
  e_attack_cooldown :: "rat option"
  e_color :: "int list option"

text \<open>
  The value of a form control: text (typed by the user or assigned as a string literal by
  the script), or a number assigned by the script, which the control shows in decimal and
  which parses back to itself.
\<close>

datatype fval = Str string | Num rat

definition field_float :: "platform \<Rightarrow> fval \<Rightarrow> rat option" where
  "field_float P v = (case v of Str t \<Rightarrow> parseFloat P t | Num x \<Rightarrow> Some x)"

definition field_int :: "platform \<Rightarrow> fval \<Rightarrow> int option" where
  "field_int P v =
     (case v of Str t \<Rightarrow> parseInt P t
      | Num x \<Rightarrow> Some (if 0 \<le> x then \<lfloor>x\<rfloor> else \<lceil>x\<rceil>))"

text \<open>\<^verbatim>\<open>parseInt(v) || 0\<close> and \<^verbatim>\<open>parseFloat(v) || 1.0\<close>.\<close>

definition int_or_0 :: "platform \<Rightarrow> fval \<Rightarrow> int" where
  "int_or_0 P v = (case field_int P v of None \<Rightarrow> 0 | Some n \<Rightarrow> n)"

definition float_or_1 :: "platform \<Rightarrow> fval \<Rightarrow> rat" where
  "float_or_1 P v = (case field_float P v of None \<Rightarrow> 1 | Some x \<Rightarrow> if x = 0 then 1 else x)"

text \<open>The heading of the editor panel (the texts themselves are Russian).\<close>

datatype title = NoTitle | TitleNew | TitleEdit string

text \<open>
  The controls of the editor form, named after their element ids, the display style of the
  three rows the script shows and hides (all three taken to exist in the page; the script
  guards two of the accesses), the colour swatch and the heading. A select control is
  modelled by its value.
\<close>

record editor_form =
  enemy_id :: string
  enemy_id_input :: string
  enemy_id_input_disabled :: bool
  enemy_name :: string
  sprite_path :: string
  weapon_path :: string
  projectile_path :: string
  sprite_scale :: fval
  max_health :: fval
  damage :: fval
  speed :: fval
  aggro_range :: fval
  attack_range :: fval
  attack_cooldown :: fval
  color_r :: fval
  color_g :: fval
  color_b :: fval
  attack_type :: attack_kind
  weapon_offset_x :: fval
  weapon_offset_y :: fval
  preview_scale :: fval
  projectile_row_display :: string
  weapon_offset_row_display :: string
  weapon_section_display :: string
  color_preview :: "fval \<times> fval \<times> fval"
  editor_title :: title

text \<open>
  Drawing surfaces: the thumbnail canvases of the enemy list (created by the script, one
  element per entry and per rendering) and the four canvases of the page.
\<close>

datatype surface = ListCanvas nat | EnemyCanvas | PlayerCanvas | WeaponCanvas | EditorCanvas

text \<open>The two texts drawn on placeholders: "player" and "no sprite".\<close>

datatype label = Txt_Player | Txt_NoSprite

datatype draw_op =
    ClearRect rat rat rat rat
  | DrawImage image rat rat rat rat rat rat rat rat
  | FillStyle string
  | FillRect rat rat rat rat
  | Font string
  | TextAlign string
  | FillText label rat rat

text \<open>
  A live interval timer with the variables its callback closes over: the thumbnail ticker
  (target canvas element, image, its own cursor), the sidebar ticker (whether it holds a
  context of the weapon canvas; its cursor is the module's \<^verbatim>\<open>animationFrame\<close> and
  \<^verbatim>\<open>animationDirection\<close>) and the editor ticker (its own cursor).
\<close>

datatype ticker =
    ListTicker nat image cursor
  | SidebarTicker bool
  | EditorTicker cursor

text \<open>
  An image request in flight with what its callbacks close over:
  \<^verbatim>\<open>startEnemyListAnimation\<close> (id, canvas id, colour, URL), \<^verbatim>\<open>loadWeaponSprite\<close>,
  \<^verbatim>\<open>previewSprite\<close> and \<^verbatim>\<open>loadCurrentSprites\<close>, \<^verbatim>\<open>loadPlayerSprite\<close>.
\<close>

datatype load =
    ListLoad string string "int list" image
  | WeaponLoad image
  | SpriteLoad image
  | PlayerLoad image

text \<open>
  The state: the module variables of the script under their own names, then the page
  (form, visibility of the three panels, the thumbnail canvases currently in the list,
  which of the four fixed canvases exist, what has been drawn on every surface), then the
  browser's tables of live interval timers, of image requests in flight and the number of
  pending \<^verbatim>\<open>setTimeout(startEditorPreview)\<close> calls.
\<close>

record app =
  enemyTypes :: "(string \<times> enemy) list"
  currentEnemyId :: "string option"
  currentSpriteImage :: "image option"
  currentWeaponImage :: "image option"
  playerSpriteImage :: "image option"
  animationFrame :: int
  animationDirection :: int
  animationInterval :: "nat option"
  currentPreviewScale :: rat
  currentWeaponOffsetX :: int
  currentWeaponOffsetY :: int
  previewSidebarVisible :: bool
  enemyListAnimations :: "(string \<times> nat) list"
  editorPreviewAnimation :: "nat option"
  form :: editor_form
  editor_hidden :: bool
  welcome_hidden :: bool
  sidebar_hidden :: bool
  list_canvases :: "(string \<times> nat) list"
  next_elem :: nat
  has_enemy_canvas :: bool
  has_player_canvas :: bool
  has_weapon_canvas :: bool
  has_editor_canvas :: bool
  canvas :: "surface \<Rightarrow> draw_op list"
  timers :: "(nat \<times> ticker) list"
  next_timer :: nat
  loads :: "(nat \<times> load) list"
  next_load :: nat
  timeouts :: nat

section \<open>Browser services\<close>

text \<open>Drawing on a surface appends to what has been drawn on it.\<close>

definition paint :: "surface \<Rightarrow> draw_op list \<Rightarrow> app \<Rightarrow> app" where
  "paint c ops s = s\<lparr>canvas := (canvas s)(c := canvas s c @ ops)\<rparr>"

text \<open>
  \<^verbatim>\<open>setInterval\<close> registers a ticker under a fresh handle, \<open>next_timer s\<close>.
  Handles are never 0, so the script's truthiness tests on a stored handle succeed.
  \<^verbatim>\<open>clearInterval\<close> removes the ticker with that handle, if it is still live.
\<close>

definition setInterval :: "ticker \<Rightarrow> app \<Rightarrow> app" where
  "setInterval tk s =
     s\<lparr>timers := timers s @ [(next_timer s, tk)], next_timer := next_timer s + 1\<rparr>"

definition clearInterval :: "nat \<Rightarrow> app \<Rightarrow> app" where
  "clearInterval t s = s\<lparr>timers := filter (\<lambda>p. fst p \<noteq> t) (timers s)\<rparr>"

text \<open>\<^verbatim>\<open>new Image()\<close> followed by the assignment of \<^verbatim>\<open>img.src\<close>.\<close>

definition request_image :: "load \<Rightarrow> app \<Rightarrow> app" where
  "request_image ld s =
     s\<lparr>loads := loads s @ [(next_load s, ld)], next_load := next_load s + 1\<rparr>"

text \<open>
  Assignment to a property of an object used as a dictionary. (Under the name
  \<^verbatim>\<open>__proto__\<close> an assignment sets the prototype instead and adds no entry; the
  model of the script's one assignment, in the load callback of a thumbnail, spells this
  case out.)
\<close>

fun assign :: "string \<Rightarrow> nat \<Rightarrow> (string \<times> nat) list \<Rightarrow> (string \<times> nat) list" where
  "assign k v [] = [(k, v)]"
| "assign k v (p # ps) = (if fst p = k then (k, v) # ps else p # assign k v ps)"

section \<open>Animation clocks and drawing\<close>

text \<open>The interval callback of \<^verbatim>\<open>startEnemyListAnimation\<close>, before it draws.\<close>

definition list_tick :: "cursor \<Rightarrow> cursor" where
  "list_tick c =
     (let f = js_rem (frame c + 1) 4;
          d = (if f = 0 then js_rem (direction c + 1) 8 else direction c)
      in \<lparr>frame = f, direction = d\<rparr>)"

text \<open>The interval callback of \<^verbatim>\<open>startEditorPreview\<close>, before it draws.\<close>

definition editor_tick :: "cursor \<Rightarrow> cursor" where
  "editor_tick c =
     (let f = js_rem (frame c + 1) 4;
          d = (if f = 0 then js_rem (direction c + 1) 8 else direction c)
      in \<lparr>frame = f, direction = d\<rparr>)"

text \<open>The interval callback of \<^verbatim>\<open>startAnimation\<close>, before it draws.\<close>

definition sidebar_tick :: "app \<Rightarrow> app" where
  "sidebar_tick s = s\<lparr>animationFrame := js_rem (animationFrame s + 1) 4\<rparr>"

definition prevDirection :: "app \<Rightarrow> app" where
  "prevDirection s = s\<lparr>animationDirection := js_rem (animationDirection s - 1 + 8) 8\<rparr>"

definition nextDirection :: "app \<Rightarrow> app" where
  "nextDirection s = s\<lparr>animationDirection := js_rem (animationDirection s + 1) 8\<rparr>"

text \<open>\<^verbatim>\<open>draw\<close> of \<^verbatim>\<open>startEnemyListAnimation\<close>, on the 64px thumbnail.\<close>

definition list_draw :: "image \<Rightarrow> cursor \<Rightarrow> draw_op list" where
  "list_draw img c =
     (let sx = of_int (js_rem (frame c) 4 * 256);
          sy = of_int (direction c * 256)
      in [ClearRect 0 0 64 64, DrawImage img sx sy 256 256 0 0 64 64])"

text \<open>
  \<^verbatim>\<open>draw\<close> of \<^verbatim>\<open>startAnimation\<close>, canvas by canvas: the enemy canvas and the player
  canvas (128px) and the weapon preview canvas (160px).
\<close>

definition enemy_canvas_draw :: "app \<Rightarrow> draw_op list" where
  "enemy_canvas_draw s =
     (let sx = of_int (js_rem (animationFrame s) 4 * 256);
          sy = of_int (animationDirection s * 256)
      in ClearRect 0 0 128 128 #
         (case currentSpriteImage s of
            None \<Rightarrow> []
          | Some img \<Rightarrow>
              (let scaledSize = 128 * currentPreviewScale s;
                   offset = (128 - scaledSize) / 2
               in [DrawImage img sx sy 256 256 offset offset scaledSize scaledSize])))"

definition player_canvas_draw :: "app \<Rightarrow> draw_op list" where
  "player_canvas_draw s =
     (let sx = of_int (js_rem (animationFrame s) 4 * 256);
          sy = of_int (animationDirection s * 256)
      in ClearRect 0 0 128 128 #
         (case playerSpriteImage s of
            Some img \<Rightarrow> [DrawImage img sx sy 256 256 0 0 128 128]
          | None \<Rightarrow>
              [FillStyle ''#3366aa'', FillRect 14 14 100 100, FillStyle ''#fff'',
               Font ''12px sans-serif'', TextAlign ''center'', FillText Txt_Player 64 68]))"

definition weapon_canvas_draw :: "app \<Rightarrow> draw_op list" where
  "weapon_canvas_draw s =
     (let sx = of_int (js_rem (animationFrame s) 4 * 256);
          sy = of_int (animationDirection s * 256)
      in ClearRect 0 0 160 160 #
         (case currentSpriteImage s of
            None \<Rightarrow> []
          | Some img \<Rightarrow>
              DrawImage img sx sy 256 256 0 0 160 160 #
              (case currentWeaponImage s of
                 None \<Rightarrow> []
               | Some w \<Rightarrow>
                   (let scale = 160 / 256;
                        weaponOffsetX = of_int (currentWeaponOffsetX s) * scale;
                        weaponOffsetY = of_int (currentWeaponOffsetY s) * scale
                    in [DrawImage w sx sy 256 256 weaponOffsetX weaponOffsetY 160 160]))))"

definition draw_sidebar :: "bool \<Rightarrow> app \<Rightarrow> app" where
  "draw_sidebar weaponCtx s =
     (let s1 = paint PlayerCanvas (player_canvas_draw s) s;
          s2 = paint EnemyCanvas (enemy_canvas_draw s) s1
      in if weaponCtx then paint WeaponCanvas (weapon_canvas_draw s) s2 else s2)"

text \<open>\<^verbatim>\<open>draw\<close> of \<^verbatim>\<open>startEditorPreview\<close>, on the 500px editor canvas.\<close>

definition editor_canvas_draw :: "cursor \<Rightarrow> app \<Rightarrow> draw_op list" where
  "editor_canvas_draw c s =
     ClearRect 0 0 500 500 #
     (case currentSpriteImage s of
        Some img \<Rightarrow>
          (let sx = of_int (js_rem (frame c) 4 * 256);
               sy = of_int (direction c * 256)
           in DrawImage img sx sy 256 256 0 0 500 500 #
              (case currentWeaponImage s of
                 None \<Rightarrow> []
               | Some w \<Rightarrow>
                   (let scale = 500 / 256;
                        offsetX = of_int (currentWeaponOffsetX s) * scale;
                        offsetY = of_int (currentWeaponOffsetY s) * scale
                    in [DrawImage w sx sy 256 256 offsetX offsetY 500 500])))
      | None \<Rightarrow>
          [FillStyle ''#333'', FillRect 0 0 500 500, FillStyle ''#666'',
           Font ''14px sans-serif'', TextAlign ''center'',
           FillText Txt_NoSprite (500 / 2) (500 / 2 + 5)])"

definition stopAnimation :: "app \<Rightarrow> app" where
  "stopAnimation s =
     (case animationInterval s of
        None \<Rightarrow> s
      | Some t \<Rightarrow> (clearInterval t s)\<lparr>animationInterval := None\<rparr>)"

definition startAnimation :: "app \<Rightarrow> app" where
  "startAnimation s =
     (let s1 = stopAnimation s in
      if \<not> has_enemy_canvas s1 \<or> \<not> has_player_canvas s1 then s1
      else (let s2 = draw_sidebar (has_weapon_canvas s1) s1
            in (setInterval (SidebarTicker (has_weapon_canvas s1)) s2)
                 \<lparr>animationInterval := Some (next_timer s2)\<rparr>))"

definition stopEditorPreview :: "app \<Rightarrow> app" where
  "stopEditorPreview s =
     (case editorPreviewAnimation s of
        None \<Rightarrow> s
      | Some t \<Rightarrow> (clearInterval t s)\<lparr>editorPreviewAnimation := None\<rparr>)"

definition startEditorPreview :: "app \<Rightarrow> app" where
  "startEditorPreview s =
     (let s1 = stopEditorPreview s in
      if \<not> has_editor_canvas s1 then s1
      else (let c = \<lparr>frame = 0, direction = 0\<rparr>;
                s2 = paint EditorCanvas (editor_canvas_draw c s1) s1
            in (setInterval (EditorTicker c) s2)
                 \<lparr>editorPreviewAnimation := Some (next_timer s2)\<rparr>))"

section \<open>The enemy list\<close>

text \<open>The flat-colour square drawn instead of a sprite.\<close>

definition color_square :: "int list \<Rightarrow> draw_op list" where
  "color_square color = [FillStyle (''rgb('' @ join color '','' @ '')''), FillRect 12 12 40 40]"

definition startEnemyListAnimation :: "string \<Rightarrow> string \<Rightarrow> string \<Rightarrow> int list \<Rightarrow> app \<Rightarrow> app" where
  "startEnemyListAnimation eid spritePath canvasId color s =
     (let filename = pop (split_str spritePath CHR ''/'')
      in request_image (ListLoad eid canvasId color (''/api/sprites/'' @ filename)) s)"

text \<open>
  The body of the \<^verbatim>\<open>forEach\<close> over the entries in \<^verbatim>\<open>renderEnemyList\<close>. The
  store \<^verbatim>\<open>enemyTypes\<close> is the list of its own entries in the order of
  \<^verbatim>\<open>Object.entries\<close>, each value a record.

  The item is built by assigning markup to \<^verbatim>\<open>innerHTML\<close>, with the canvas id written
  unescaped between the quotes of \<^verbatim>\<open>id="..."\<close>: the new canvas element carries the id
  the parser reads back, which need not be the id the script then looks up. The two texts
  interpolated as element content, \<^verbatim>\<open>enemy.name || id\<close> and the id, are not part of
  the model: it describes the page for entries whose texts contain no \<^verbatim>\<open><\<close> and so
  add no element of their own (\<open>plain_entry\<close>), and what is proved of the rendered list is
  proved for such entries. The page is taken to have no element of its own under a
  thumbnail's canvas id.
\<close>

definition plain_text :: "string \<Rightarrow> bool" where
  "plain_text t = (CHR ''<'' \<notin> set t)"

definition plain_entry :: "string \<times> enemy \<Rightarrow> bool" where
  "plain_entry entry =
     (plain_text (fst entry) \<and> plain_text (or_str (e_name (snd entry)) (fst entry)))"

definition render_entry :: "platform \<Rightarrow> app \<Rightarrow> string \<times> enemy \<Rightarrow> app" where
  "render_entry P s entry =
     (let eid = fst entry; enemy = snd entry;
          color = (case e_color enemy of None \<Rightarrow> [200, 50, 50] | Some c \<Rightarrow> c);
          canvasId = ''enemy-preview-'' @ eid;
          s1 = s\<lparr>list_canvases := list_canvases s @ [(attribute_value P canvasId, next_elem s)],
                 next_elem := next_elem s + 1\<rparr>
      in if truthy (e_sprite_path enemy)
         then startEnemyListAnimation eid (or_str (e_sprite_path enemy) []) canvasId color s1
         else (case map_of (list_canvases s1) canvasId of
                 None \<Rightarrow> s1
               | Some c \<Rightarrow> paint (ListCanvas c) (color_square color) s1))"

definition renderEnemyList :: "platform \<Rightarrow> app \<Rightarrow> app" where
  "renderEnemyList P s =
     (let s1 = fold (\<lambda>anim. clearInterval (snd anim)) (enemyListAnimations s) s;
          s2 = s1\<lparr>enemyListAnimations := [], list_canvases := []\<rparr>
      in foldl (render_entry P) s2 (enemyTypes s2))"

text \<open>
  \<^verbatim>\<open>updateSpriteSelects\<close> replaces the options of the three selects; none of the new
  options is marked selected, so each select falls back to its first option, whose value is
  the empty string. The options themselves are not modelled: the paths the script assigns
  to a select are taken to be among them.
\<close>

definition updateSpriteSelects :: "app \<Rightarrow> app" where
  "updateSpriteSelects s =
     s\<lparr>form := (form s)\<lparr>sprite_path := [], weapon_path := [], projectile_path := []\<rparr>\<rparr>"

text \<open>
  \<^verbatim>\<open>loadData\<close> once its requests have been answered: \<open>None\<close> when the request
  failed (a toast only), otherwise the fetched enemy types. The lists of sprite, weapon and
  texture file names and the two lists rendered from them are not part of the model.
\<close>

definition loadData :: "platform \<Rightarrow> (string \<times> enemy) list option \<Rightarrow> app \<Rightarrow> app" where
  "loadData P fetched s =
     (case fetched of
        None \<Rightarrow> s
      | Some ets \<Rightarrow> updateSpriteSelects (renderEnemyList P (s\<lparr>enemyTypes := ets\<rparr>)))"

section \<open>The editor form\<close>

definition showEditor :: "app \<Rightarrow> app" where
  "showEditor s = s\<lparr>editor_hidden := False, welcome_hidden := True\<rparr>"

definition hideEditor :: "app \<Rightarrow> app" where
  "hideEditor s = s\<lparr>editor_hidden := True, welcome_hidden := False\<rparr>"

definition updateColorPreview :: "app \<Rightarrow> app" where
  "updateColorPreview s =
     s\<lparr>form := (form s)\<lparr>color_preview :=
          (color_r (form s), color_g (form s), color_b (form s))\<rparr>\<rparr>"

text \<open>The text labels that \<^verbatim>\<open>updatePreviewScale\<close> also rewrites are not modelled.\<close>

definition updatePreviewScale :: "rat \<Rightarrow> app \<Rightarrow> app" where
  "updatePreviewScale scale s =
     s\<lparr>currentPreviewScale := scale, form := (form s)\<lparr>preview_scale := Num scale\<rparr>\<rparr>"

definition updateAttackTypeUI :: "platform \<Rightarrow> app \<Rightarrow> app" where
  "updateAttackTypeUI P s =
     (let attackType = attack_type (form s);
          attackRange = field_float P (attack_range (form s))
      in if attackType = Ranged
         then (let f1 = (form s)\<lparr>projectile_row_display := ''flex''\<rparr>
               in if (case attackRange of None \<Rightarrow> False | Some x \<Rightarrow> x < 5)
                  then s\<lparr>form := f1\<lparr>attack_range := Str ''8.0''\<rparr>\<rparr>
                  else s\<lparr>form := f1\<rparr>)
         else (let f1 = (form s)\<lparr>projectile_row_display := ''none''\<rparr>
               in if (case attackRange of None \<Rightarrow> False | Some x \<Rightarrow> x > 3)
                  then s\<lparr>form := f1\<lparr>attack_range := Str ''1.2''\<rparr>\<rparr>
                  else s\<lparr>form := f1\<rparr>))"

definition loadWeaponSprite :: "string \<Rightarrow> app \<Rightarrow> app" where
  "loadWeaponSprite weaponPath s =
     (if weaponPath = [] then s\<lparr>currentWeaponImage := None\<rparr>
      else (let filename = pop (split_str weaponPath CHR ''/'')
            in if includes_str weaponPath ''weapon''
               then request_image (WeaponLoad (''/api/weapons/'' @ filename)) s
               else request_image (WeaponLoad (''/api/sprites/'' @ filename)) s))"

definition updateWeaponOffsetUI :: "app \<Rightarrow> app" where
  "updateWeaponOffsetUI s =
     (let weaponPath = weapon_path (form s)
      in if weaponPath \<noteq> []
         then loadWeaponSprite weaponPath
                (s\<lparr>form := (form s)\<lparr>weapon_offset_row_display := ''flex'',
                                      weapon_section_display := ''block''\<rparr>\<rparr>)
         else s\<lparr>form := (form s)\<lparr>weapon_offset_row_display := ''none'',
                                  weapon_section_display := ''none''\<rparr>,
                currentWeaponImage := None\<rparr>)"

definition updateWeaponOffset :: "platform \<Rightarrow> app \<Rightarrow> app" where
  "updateWeaponOffset P s =
     s\<lparr>currentWeaponOffsetX := int_or_0 P (weapon_offset_x (form s)),
       currentWeaponOffsetY := int_or_0 P (weapon_offset_y (form s))\<rparr>"

definition previewSprite :: "string \<Rightarrow> app \<Rightarrow> app" where
  "previewSprite filename s = request_image (SpriteLoad (''/api/sprites/'' @ filename)) s"

definition loadPlayerSprite :: "app \<Rightarrow> app" where
  "loadPlayerSprite s =
     (if playerSpriteImage s \<noteq> None then s
      else request_image (PlayerLoad ''/api/player-sprite'') s)"

definition createNewEnemy :: "platform \<Rightarrow> app \<Rightarrow> app" where
  "createNewEnemy P s =
     (let s1 = s\<lparr>currentEnemyId := None,
                 form := (form s)\<lparr>
                   enemy_id := [], enemy_id_input := [], enemy_id_input_disabled := False,
                   enemy_name := [], sprite_path := [], weapon_path := [],
                   sprite_scale := Str ''1.0'', max_health := Str ''30'', damage := Str ''5'',
                   speed := Str ''6.0'', aggro_range := Str ''150'',
                   attack_range := Str ''1.2'', attack_cooldown := Str ''1.5'',
                   color_r := Str ''200'', color_g := Str ''50'', color_b := Str ''50'',
                   attack_type := Melee, projectile_path := [],
                   weapon_offset_x := Str ''0'', weapon_offset_y := Str ''0''\<rparr>,
                 currentWeaponOffsetX := 0, currentWeaponOffsetY := 0,
                 currentWeaponImage := None\<rparr>;
          s2 = updateAttackTypeUI P s1;
          s3 = updateWeaponOffsetUI s2;
          s4 = updateColorPreview s3;
          s5 = updatePreviewScale 1 s4;
          s6 = s5\<lparr>form := (form s5)\<lparr>editor_title := TitleNew\<rparr>\<rparr>;
          s7 = showEditor s6
      in startEditorPreview s7)"

text \<open>
  Reading element \<open>i\<close> of the weapon offset with \<^verbatim>\<open>|| 0\<close>, and of the colour, where a
  missing element is \<^verbatim>\<open>undefined\<close>.
\<close>

definition offset_at :: "int list \<Rightarrow> nat \<Rightarrow> int" where
  "offset_at xs i = (if i < length xs then xs ! i else 0)"

definition color_at :: "int list \<Rightarrow> nat \<Rightarrow> fval" where
  "color_at xs i = (if i < length xs then Num (of_int (xs ! i)) else Str ''undefined'')"

text \<open>
  \<^verbatim>\<open>enemyTypes[id]\<close> reads a property of a plain object: an own entry if there is one,
  and otherwise whatever the object inherits from \<^verbatim>\<open>Object.prototype\<close> under that
  name. The inherited values are eleven functions and, under \<^verbatim>\<open>__proto__\<close>, the
  prototype itself; all are truthy. Of the attributes the script reads from a record, a
  function has only \<^verbatim>\<open>name\<close>, its own name, and the prototype has none.
\<close>

definition inherited :: "string option \<Rightarrow> enemy" where
  "inherited n =
     \<lparr>e_name = n, e_sprite_path = None, e_weapon_path = None, e_weapon_offset = None,
      e_projectile_path = None, e_sprite_scale = None, e_max_health = None, e_damage = None,
      e_speed = None, e_attack_type = None, e_aggro_range = None, e_attack_range = None,
      e_attack_cooldown = None, e_color = None\<rparr>"

definition object_prototype :: "(string \<times> enemy) list" where
  "object_prototype =
     [(''constructor'', inherited (Some ''Object'')),
      (''__defineGetter__'', inherited (Some ''__defineGetter__'')),
      (''__defineSetter__'', inherited (Some ''__defineSetter__'')),
      (''hasOwnProperty'', inherited (Some ''hasOwnProperty'')),
      (''__lookupGetter__'', inherited (Some ''__lookupGetter__'')),
      (''__lookupSetter__'', inherited (Some ''__lookupSetter__'')),
      (''isPrototypeOf'', inherited (Some ''isPrototypeOf'')),
      (''propertyIsEnumerable'', inherited (Some ''propertyIsEnumerable'')),
      (''toString'', inherited (Some ''toString'')),
      (''valueOf'', inherited (Some ''valueOf'')),
      (''toLocaleString'', inherited (Some ''toLocaleString'')),
      (''__proto__'', inherited None)]"

definition get_enemy :: "(string \<times> enemy) list \<Rightarrow> string \<Rightarrow> enemy option" where
  "get_enemy ets eid =
     (case map_of ets eid of
        Some enemy \<Rightarrow> Some enemy
      | None \<Rightarrow> map_of object_prototype eid)"

definition selectEnemy :: "platform \<Rightarrow> string \<Rightarrow> app \<Rightarrow> app" where
  "selectEnemy P eid s =
     (let s0 = s\<lparr>currentEnemyId := Some eid\<rparr>
      in case get_enemy (enemyTypes s0) eid of
           None \<Rightarrow> s0
         | Some enemy \<Rightarrow>
            (let weaponOffset = (case e_weapon_offset enemy of None \<Rightarrow> [0, 0] | Some w \<Rightarrow> w);
                 s1 = s0\<lparr>form := (form s0)\<lparr>
                        enemy_id := eid, enemy_id_input := eid, enemy_id_input_disabled := True,
                        enemy_name := or_str (e_name enemy) eid,
                        sprite_path := or_str (e_sprite_path enemy) [],
                        weapon_path := or_str (e_weapon_path enemy) [],
                        sprite_scale := Num (or_num (e_sprite_scale enemy) 1),
                        max_health := Num (or_num (e_max_health enemy) 30),
                        damage := Num (or_num (e_damage enemy) 5),
                        speed := Num (or_num (e_speed enemy) 6),
                        aggro_range := Num (or_num (e_aggro_range enemy) 150),
                        attack_range := Num (or_num (e_attack_range enemy) (12 / 10)),
                        attack_cooldown := Num (or_num (e_attack_cooldown enemy) (15 / 10)),
                        attack_type := (case e_attack_type enemy of None \<Rightarrow> Melee | Some a \<Rightarrow> a),
                        projectile_path := or_str (e_projectile_path enemy) [],
                        weapon_offset_x := Num (of_int (offset_at weaponOffset 0)),
                        weapon_offset_y := Num (of_int (offset_at weaponOffset 1))\<rparr>,
                      currentWeaponOffsetX := offset_at weaponOffset 0,
                      currentWeaponOffsetY := offset_at weaponOffset 1\<rparr>;
                 s2 = updateAttackTypeUI P s1;
                 color = (case e_color enemy of None \<Rightarrow> [200, 50, 50] | Some c \<Rightarrow> c);
                 s3 = s2\<lparr>form := (form s2)\<lparr>color_r := color_at color 0,
                                           color_g := color_at color 1,
                                           color_b := color_at color 2\<rparr>\<rparr>;
                 s4 = updateColorPreview s3;
                 scale = or_num (e_sprite_scale enemy) 1;
                 s5 = updatePreviewScale scale s4;
                 s6 = s5\<lparr>form := (form s5)\<lparr>editor_title := TitleEdit (or_str (e_name enemy) eid)\<rparr>\<rparr>;
                 s7 = (if truthy (e_sprite_path enemy)
                       then previewSprite (pop (split_str (or_str (e_sprite_path enemy) []) CHR ''/'')) s6
                       else s6);
                 s8 = (if truthy (e_weapon_path enemy)
                       then loadWeaponSprite (or_str (e_weapon_path enemy) []) s7
                       else s7);
                 s9 = updateWeaponOffsetUI s8;
                 s10 = (if previewSidebarVisible s9
                        then stopAnimation (s9\<lparr>previewSidebarVisible := False, sidebar_hidden := True\<rparr>)
                        else s9);
                 s11 = showEditor s10;
                 s12 = renderEnemyList P s11
             in s12\<lparr>timeouts := timeouts s12 + 1\<rparr>))"

text \<open>
  The answer of the backend to a request of the script. An accepted mutation is followed
  by \<^verbatim>\<open>loadData\<close>, whose own fetch result is the argument of \<open>Accepted\<close>. A handler
  that awaits the backend is modelled as one step, taken when the answers have arrived; the
  request body, which no later step reads, is not modelled, and neither are the toasts.
\<close>

datatype response = Accepted "(string \<times> enemy) list option" | Rejected | Failed

text \<open>The id that \<^verbatim>\<open>saveEnemy\<close> reads: the hidden field, or else the id input.\<close>

definition submitted_id :: "editor_form \<Rightarrow> string" where
  "submitted_id f = (if enemy_id f \<noteq> [] then enemy_id f else enemy_id_input f)"

definition saveEnemy :: "platform \<Rightarrow> response \<Rightarrow> app \<Rightarrow> app" where
  "saveEnemy P resp s =
     (let eid = submitted_id (form s)
      in if eid = [] then s
         else (let isNew = \<not> truthy (currentEnemyId s)
               in case resp of
                    Accepted fetched \<Rightarrow>
                      (let s1 = loadData P fetched s;
                           s2 = (if isNew
                                 then s1\<lparr>currentEnemyId :=
                                           Some (replace (toLowerCase P eid) '' '' ''_'')\<rparr>
                                 else s1)
                       in renderEnemyList P s2)
                  | Rejected \<Rightarrow> s
                  | Failed \<Rightarrow> s))"

definition deleteEnemy :: "platform \<Rightarrow> bool \<Rightarrow> response \<Rightarrow> app \<Rightarrow> app" where
  "deleteEnemy P confirmed resp s =
     (if \<not> truthy (currentEnemyId s) then s
      else if \<not> confirmed then s
      else (case resp of
              Accepted fetched \<Rightarrow> loadData P fetched (hideEditor (s\<lparr>currentEnemyId := None\<rparr>))
            | Rejected \<Rightarrow> s
            | Failed \<Rightarrow> s))"

definition cancelEdit :: "platform \<Rightarrow> app \<Rightarrow> app" where
  "cancelEdit P s = renderEnemyList P (hideEditor (s\<lparr>currentEnemyId := None\<rparr>))"

section \<open>The preview sidebar\<close>

definition loadCurrentSprites :: "platform \<Rightarrow> app \<Rightarrow> app" where
  "loadCurrentSprites P s =
     (let spritePath = sprite_path (form s);
          weaponPath = weapon_path (form s);
          s1 = (if spritePath \<noteq> []
                then request_image (SpriteLoad (''/api/sprites/'' @ pop (split_str spritePath CHR ''/''))) s
                else s);
          s2 = (if weaponPath \<noteq> []
                then (let s' = loadWeaponSprite weaponPath s1
                      in s'\<lparr>form := (form s')\<lparr>weapon_section_display := ''block''\<rparr>\<rparr>)
                else s1\<lparr>form := (form s1)\<lparr>weapon_section_display := ''none''\<rparr>,
                        currentWeaponImage := None\<rparr>);
          s3 = s2\<lparr>currentWeaponOffsetX := int_or_0 P (weapon_offset_x (form s2)),
                  currentWeaponOffsetY := int_or_0 P (weapon_offset_y (form s2))\<rparr>;
          scale = float_or_1 P (sprite_scale (form s3));
          s4 = s3\<lparr>currentPreviewScale := scale\<rparr>
      in updatePreviewScale scale s4)"

definition togglePreviewPanel :: "platform \<Rightarrow> app \<Rightarrow> app" where
  "togglePreviewPanel P s =
     (let s1 = s\<lparr>previewSidebarVisible := \<not> previewSidebarVisible s\<rparr>
      in if previewSidebarVisible s1
         then startAnimation (loadCurrentSprites P (loadPlayerSprite (s1\<lparr>sidebar_hidden := False\<rparr>)))
         else stopAnimation (s1\<lparr>sidebar_hidden := True\<rparr>))"

definition deleteSprite :: "platform \<Rightarrow> bool \<Rightarrow> response \<Rightarrow> app \<Rightarrow> app" where
  "deleteSprite P confirmed resp s =
     (if \<not> confirmed then s
      else (case resp of
              Accepted fetched \<Rightarrow>
                (let s1 = s\<lparr>currentSpriteImage := None\<rparr>;
                     s2 = (if previewSidebarVisible s1 then togglePreviewPanel P s1 else s1)
                 in loadData P fetched s2)
            | Rejected \<Rightarrow> s
            | Failed \<Rightarrow> s))"

definition adjustWeaponOffset :: "int \<Rightarrow> int \<Rightarrow> app \<Rightarrow> app" where
  "adjustWeaponOffset dx dy s =
     s\<lparr>currentWeaponOffsetX := currentWeaponOffsetX s + dx,
       currentWeaponOffsetY := currentWeaponOffsetY s + dy\<rparr>"

definition applyWeaponOffsetToForm :: "app \<Rightarrow> app" where
  "applyWeaponOffsetToForm s =
     s\<lparr>form := (form s)\<lparr>weapon_offset_x := Num (of_int (currentWeaponOffsetX s)),
                          weapon_offset_y := Num (of_int (currentWeaponOffsetY s))\<rparr>\<rparr>"

section \<open>Listeners and callbacks\<close>

text \<open>
  The listeners registered by \<^verbatim>\<open>setupEventListeners\<close>. Each takes the new value of
  its control, which the browser has stored before the listener runs.
\<close>

definition on_sprite_path_change :: "string \<Rightarrow> app \<Rightarrow> app" where
  "on_sprite_path_change v s =
     (let s0 = s\<lparr>form := (form s)\<lparr>sprite_path := v\<rparr>\<rparr>
      in if v \<noteq> []
         then (let s1 = previewSprite (pop (split_str v CHR ''/'')) s0;
                   weaponPath = weapon_path (form s1);
                   s2 = (if weaponPath \<noteq> [] then loadWeaponSprite weaponPath s1 else s1)
               in s2\<lparr>timeouts := timeouts s2 + 1\<rparr>)
         else startEditorPreview (s0\<lparr>currentSpriteImage := None\<rparr>))"

definition on_preview_scale_input :: "rat \<Rightarrow> app \<Rightarrow> app" where
  "on_preview_scale_input scale s =
     s\<lparr>form := (form s)\<lparr>preview_scale := Num scale\<rparr>, currentPreviewScale := scale\<rparr>"

definition on_sprite_scale_change :: "platform \<Rightarrow> string \<Rightarrow> app \<Rightarrow> app" where
  "on_sprite_scale_change P v s =
     (let s0 = s\<lparr>form := (form s)\<lparr>sprite_scale := Str v\<rparr>\<rparr>;
          scale = float_or_1 P (Str v)
      in if currentSpriteImage s0 \<noteq> None then updatePreviewScale scale s0 else s0)"

definition on_attack_type_change :: "platform \<Rightarrow> attack_kind \<Rightarrow> app \<Rightarrow> app" where
  "on_attack_type_change P a s = updateAttackTypeUI P (s\<lparr>form := (form s)\<lparr>attack_type := a\<rparr>\<rparr>)"

definition on_weapon_path_change :: "string \<Rightarrow> app \<Rightarrow> app" where
  "on_weapon_path_change v s =
     (let s1 = updateWeaponOffsetUI (s\<lparr>form := (form s)\<lparr>weapon_path := v\<rparr>\<rparr>)
      in s1\<lparr>timeouts := timeouts s1 + 1\<rparr>)"

definition on_weapon_offset_x_input :: "platform \<Rightarrow> string \<Rightarrow> app \<Rightarrow> app" where
  "on_weapon_offset_x_input P v s =
     updateWeaponOffset P (s\<lparr>form := (form s)\<lparr>weapon_offset_x := Str v\<rparr>\<rparr>)"

definition on_weapon_offset_y_input :: "platform \<Rightarrow> string \<Rightarrow> app \<Rightarrow> app" where
  "on_weapon_offset_y_input P v s =
     updateWeaponOffset P (s\<lparr>form := (form s)\<lparr>weapon_offset_y := Str v\<rparr>\<rparr>)"

text \<open>An interval timer fires: the callback of the ticker with that handle runs, if live.\<close>

definition timer_fired :: "nat \<Rightarrow> app \<Rightarrow> app" where
  "timer_fired t s =
     (case map_of (timers s) t of
        None \<Rightarrow> s
      | Some (ListTicker c img cur) \<Rightarrow>
          (let cur' = list_tick cur;
               s1 = s\<lparr>timers := map (\<lambda>p. if fst p = t then (t, ListTicker c img cur') else p)
                                   (timers s)\<rparr>
           in paint (ListCanvas c) (list_draw img cur') s1)
      | Some (SidebarTicker weaponCtx) \<Rightarrow> draw_sidebar weaponCtx (sidebar_tick s)
      | Some (EditorTicker cur) \<Rightarrow>
          (let cur' = editor_tick cur;
               s1 = s\<lparr>timers := map (\<lambda>p. if fst p = t then (t, EditorTicker cur') else p)
                                   (timers s)\<rparr>
           in paint EditorCanvas (editor_canvas_draw cur' s1) s1))"

text \<open>A pending \<^verbatim>\<open>setTimeout(() => startEditorPreview(), 150)\<close> fires.\<close>

definition timeout_fired :: "app \<Rightarrow> app" where
  "timeout_fired s =
     (if timeouts s = 0 then s else startEditorPreview (s\<lparr>timeouts := timeouts s - 1\<rparr>))"

text \<open>The \<^verbatim>\<open>onload\<close> and \<^verbatim>\<open>onerror\<close> callbacks of the image request with that number.\<close>

definition image_loaded :: "nat \<Rightarrow> app \<Rightarrow> app" where
  "image_loaded n s =
     (case map_of (loads s) n of
        None \<Rightarrow> s
      | Some ld \<Rightarrow>
          (let s1 = s\<lparr>loads := filter (\<lambda>p. fst p \<noteq> n) (loads s)\<rparr>
           in case ld of
                ListLoad eid canvasId color img \<Rightarrow>
                  (case map_of (list_canvases s1) canvasId of
                     None \<Rightarrow> s1
                   | Some c \<Rightarrow>
                       (let cur = \<lparr>frame = 0, direction = 0\<rparr>;
                            s2 = paint (ListCanvas c) (list_draw img cur) s1;
                            s3 = setInterval (ListTicker c img cur) s2
                        in if eid = ''__proto__'' then s3
                           else s3\<lparr>enemyListAnimations :=
                                    assign eid (next_timer s2) (enemyListAnimations s3)\<rparr>))
              | WeaponLoad img \<Rightarrow> s1\<lparr>currentWeaponImage := Some img\<rparr>
              | SpriteLoad img \<Rightarrow> s1\<lparr>currentSpriteImage := Some img\<rparr>
              | PlayerLoad img \<Rightarrow> s1\<lparr>playerSpriteImage := Some img\<rparr>))"

definition image_failed :: "nat \<Rightarrow> app \<Rightarrow> app" where
  "image_failed n s =
     (case map_of (loads s) n of
        None \<Rightarrow> s
      | Some ld \<Rightarrow>
          (let s1 = s\<lparr>loads := filter (\<lambda>p. fst p \<noteq> n) (loads s)\<rparr>
           in case ld of
                ListLoad eid canvasId color img \<Rightarrow>
                  (case map_of (list_canvases s1) canvasId of
                     None \<Rightarrow> s1
                   | Some c \<Rightarrow> paint (ListCanvas c) (color_square color) s1)
              | WeaponLoad img \<Rightarrow> s1\<lparr>currentWeaponImage := None\<rparr>
              | SpriteLoad img \<Rightarrow> s1
              | PlayerLoad img \<Rightarrow> s1))"

section \<open>The page as a state machine\<close>

text \<open>
  What can happen to the page, one event per handler or callback. Editing a control that
  has no listener only changes the form; the three such controls that modelled code reads
  have an event each. Uploads, the texture list, the code export and
  \<^verbatim>\<open>applyScaleToForm\<close> are not modelled: they reach the state only through
  \<^verbatim>\<open>loadData\<close>, \<^verbatim>\<open>previewSprite\<close> and the form.
\<close>

datatype event =
    DataLoaded "(string \<times> enemy) list option"
  | CreateNewEnemy
  | SelectEnemy string
  | SaveEnemy response
  | DeleteEnemy bool response
  | CancelEdit
  | PreviewSprite string
  | DeleteSprite bool response
  | TogglePreviewPanel
  | PrevDirection
  | NextDirection
  | AdjustWeaponOffset int int
  | ApplyWeaponOffsetToForm
  | TypeEnemyIdInput string
  | TypeEnemyName string
  | TypeAttackRange string
  | ChangeSpritePath string
  | ChangeWeaponPath string
  | ChangeSpriteScale string
  | ChangeAttackType attack_kind
  | InputPreviewScale rat
  | InputWeaponOffsetX string
  | InputWeaponOffsetY string
  | TimerFired nat
  | TimeoutFired
  | ImageLoaded nat
  | ImageFailed nat

fun step :: "platform \<Rightarrow> event \<Rightarrow> app \<Rightarrow> app" where
  "step P (DataLoaded fetched) s = loadData P fetched s"
| "step P CreateNewEnemy s = createNewEnemy P s"
| "step P (SelectEnemy eid) s = selectEnemy P eid s"
| "step P (SaveEnemy resp) s = saveEnemy P resp s"
| "step P (DeleteEnemy confirmed resp) s = deleteEnemy P confirmed resp s"
| "step P CancelEdit s = cancelEdit P s"
| "step P (PreviewSprite filename) s = previewSprite filename s"
| "step P (DeleteSprite confirmed resp) s = deleteSprite P confirmed resp s"
| "step P TogglePreviewPanel s = togglePreviewPanel P s"
| "step P PrevDirection s = prevDirection s"
| "step P NextDirection s = nextDirection s"
| "step P (AdjustWeaponOffset dx dy) s = adjustWeaponOffset dx dy s"
| "step P ApplyWeaponOffsetToForm s = applyWeaponOffsetToForm s"
| "step P (TypeEnemyIdInput v) s = s\<lparr>form := (form s)\<lparr>enemy_id_input := v\<rparr>\<rparr>"
| "step P (TypeEnemyName v) s = s\<lparr>form := (form s)\<lparr>enemy_name := v\<rparr>\<rparr>"
| "step P (TypeAttackRange v) s = s\<lparr>form := (form s)\<lparr>attack_range := Str v\<rparr>\<rparr>"
| "step P (ChangeSpritePath v) s = on_sprite_path_change v s"
| "step P (ChangeWeaponPath v) s = on_weapon_path_change v s"
| "step P (ChangeSpriteScale v) s = on_sprite_scale_change P v s"
| "step P (ChangeAttackType a) s = on_attack_type_change P a s"
| "step P (InputPreviewScale x) s = on_preview_scale_input x s"
| "step P (InputWeaponOffsetX v) s = on_weapon_offset_x_input P v s"
| "step P (InputWeaponOffsetY v) s = on_weapon_offset_y_input P v s"
| "step P (TimerFired t) s = timer_fired t s"
| "step P TimeoutFired s = timeout_fired s"
| "step P (ImageLoaded n) s = image_loaded n s"
| "step P (ImageFailed n) s = image_failed n s"

definition run :: "platform \<Rightarrow> event list \<Rightarrow> app \<Rightarrow> app" where
  "run P evs s = fold (step P) evs s"

text \<open>
  The page when the script has been loaded: the module variables as the script
  initialises them; the form as \<^verbatim>\<open>createNewEnemy\<close> would fill it, the editor and the
  sidebar hidden and the four fixed canvases present (the HTML is not part of the
  sources; no result below depends on these choices except through evaluated runs).
\<close>

definition blank_form :: editor_form where
  "blank_form =
     \<lparr>enemy_id = [], enemy_id_input = [], enemy_id_input_disabled = False, enemy_name = [],
      sprite_path = [], weapon_path = [], projectile_path = [],
      sprite_scale = Str ''1.0'', max_health = Str ''30'', damage = Str ''5'',
      speed = Str ''6.0'', aggro_range = Str ''150'', attack_range = Str ''1.2'',
      attack_cooldown = Str ''1.5'', color_r = Str ''200'', color_g = Str ''50'',
      color_b = Str ''50'', attack_type = Melee,
      weapon_offset_x = Str ''0'', weapon_offset_y = Str ''0'', preview_scale = Str ''1.0'',
      projectile_row_display = ''none'', weapon_offset_row_display = ''none'',
      weapon_section_display = ''none'',
      color_preview = (Str ''200'', Str ''50'', Str ''50''), editor_title = NoTitle\<rparr>"

definition init :: app where
  "init =
     \<lparr>enemyTypes = [], currentEnemyId = None, currentSpriteImage = None,
      currentWeaponImage = None, playerSpriteImage = None,
      animationFrame = 0, animationDirection = 0, animationInterval = None,
      currentPreviewScale = 1, currentWeaponOffsetX = 0, currentWeaponOffsetY = 0,
      previewSidebarVisible = False, enemyListAnimations = [],
      editorPreviewAnimation = None,
      form = blank_form, editor_hidden = True, welcome_hidden = False, sidebar_hidden = True,
      list_canvases = [], next_elem = 0,
      has_enemy_canvas = True, has_player_canvas = True, has_weapon_canvas = True,
      has_editor_canvas = True,
      canvas = (\<lambda>c. []),
      timers = [], next_timer = 1, loads = [], next_load = 0, timeouts = 0\<rparr>"

section \<open>Properties of states\<close>

text \<open>A cursor within the 4 x 8 grid, and a state all of whose cursors are.\<close>

definition cursor_ok :: "cursor \<Rightarrow> bool" where
  "cursor_ok c = (0 \<le> frame c \<and> frame c \<le> 3 \<and> 0 \<le> direction c \<and> direction c \<le> 7)"

fun ticker_ok :: "ticker \<Rightarrow> bool" where
  "ticker_ok (ListTicker c img cur) = cursor_ok cur"
| "ticker_ok (SidebarTicker w) = True"
| "ticker_ok (EditorTicker cur) = cursor_ok cur"

definition cursors_in_range :: "app \<Rightarrow> bool" where
  "cursors_in_range s =
     (0 \<le> animationFrame s \<and> animationFrame s \<le> 3 \<and>
      0 \<le> animationDirection s \<and> animationDirection s \<le> 7 \<and>
      list_all (\<lambda>p. ticker_ok (snd p)) (timers s))"

text \<open>
  The surface a ticker draws on is gone: a thumbnail canvas that is no longer in the
  list, the sidebar or the editor panel while hidden. (The editor canvas is the animation
  "in the editing form", as the script's comments call it, which \<^verbatim>\<open>showEditor\<close> and
  \<^verbatim>\<open>hideEditor\<close> show and hide.)
\<close>

fun target_gone :: "app \<Rightarrow> ticker \<Rightarrow> bool" where
  "target_gone s (ListTicker c img cur) = (c \<notin> set (map snd (list_canvases s)))"
| "target_gone s (SidebarTicker w) = sidebar_hidden s"
| "target_gone s (EditorTicker cur) = editor_hidden s"

definition stale_tickers :: "app \<Rightarrow> nat list" where
  "stale_tickers s = map fst (filter (\<lambda>p. target_gone s (snd p)) (timers s))"

text \<open>
  The script still holds the handle of a live ticker, in the variable its stop path reads;
  a live ticker whose handle is held nowhere cannot be cancelled any more.
\<close>

fun handle_kept :: "app \<Rightarrow> nat \<Rightarrow> ticker \<Rightarrow> bool" where
  "handle_kept s t (ListTicker c img cur) = (t \<in> set (map snd (enemyListAnimations s)))"
| "handle_kept s t (SidebarTicker w) = (animationInterval s = Some t)"
| "handle_kept s t (EditorTicker cur) = (editorPreviewAnimation s = Some t)"

definition leaked_tickers :: "app \<Rightarrow> nat list" where
  "leaked_tickers s = map fst (filter (\<lambda>p. \<not> handle_kept s (fst p) (snd p)) (timers s))"

text \<open>
  A live ticker whose handle is below the next fresh one and is held in none of the three
  variables the stop paths read.
\<close>

definition lost_ticker :: "nat \<Rightarrow> app \<Rightarrow> bool" where
  "lost_ticker t s =
     (t \<in> set (map fst (timers s)) \<and> t < next_timer s \<and>
      t \<notin> set (map snd (enemyListAnimations s)) \<and>
      animationInterval s \<noteq> Some t \<and> editorPreviewAnimation s \<noteq> Some t)"

section \<open>Example data\<close>

definition P0 :: platform where
  "P0 = decimal_platform"

text \<open>An enemy with a sprite, a weapon and a weapon offset, and one with neither.\<close>

definition rat :: enemy where
  "rat =
     \<lparr>e_name = Some ''Rat'', e_sprite_path = Some ''game/images/enemy/rat.png'',
      e_weapon_path = Some ''game/images/weapon/sword.png'', e_weapon_offset = Some [10, 20],
      e_projectile_path = None, e_sprite_scale = None, e_max_health = None, e_damage = None,
      e_speed = None, e_attack_type = None, e_aggro_range = None, e_attack_range = None,
      e_attack_cooldown = None, e_color = None\<rparr>"

definition blob :: enemy where
  "blob =
     \<lparr>e_name = None, e_sprite_path = None, e_weapon_path = None, e_weapon_offset = None,
      e_projectile_path = None, e_sprite_scale = None, e_max_health = None, e_damage = None,
      e_speed = None, e_attack_type = None, e_aggro_range = None, e_attack_range = None,
      e_attack_cooldown = None, e_color = None\<rparr>"

text \<open>
  The list is loaded with the one enemy \<open>rat\<close>, its thumbnail image arrives, the user
  selects it, and the four images requested by \<^verbatim>\<open>selectEnemy\<close> (sprite, weapon twice,
  thumbnail) arrive.
\<close>

definition rat_loaded :: "event list" where
  "rat_loaded =
     [DataLoaded (Some [(''rat'', rat)]), ImageLoaded 0, SelectEnemy ''rat'',
      ImageLoaded 1, ImageLoaded 2, ImageLoaded 3, ImageLoaded 4]"

text \<open>
  Then the delayed start of the editor preview fires and the user saves: the backend
  accepts, \<^verbatim>\<open>saveEnemy\<close> renders the list twice in a row (once inside
  \<^verbatim>\<open>loadData\<close>), and the two thumbnail images requested arrive.
\<close>

definition rat_saved :: "event list" where
  "rat_saved =
     rat_loaded @
     [TimeoutFired, SaveEnemy (Accepted (Some [(''rat'', rat)])), ImageLoaded 5, ImageLoaded 6]"

text \<open>A list of two enemies, the first without a sprite, before it is rendered.\<close>

definition two_enemies :: app where
  "two_enemies = init\<lparr>enemyTypes := [(''blob'', blob), (''rat'', rat)]\<rparr>"

text \<open>An enemy without a sprite that has a colour of its own.\<close>

definition slime :: enemy where
  "slime = blob\<lparr>e_name := Some ''Slime'', e_color := Some [0, 128, 255]\<rparr>"

section \<open>Arithmetic of the clocks\<close>

lemma js_rem_nonneg: "0 \<le> a \<Longrightarrow> 0 < b \<Longrightarrow> js_rem a b = a mod b"
  by (simp add: js_rem_def sgn_if)

lemma editor_tick_eq: "editor_tick = list_tick"
  by (rule ext) (simp add: editor_tick_def list_tick_def)

lemma list_tick_once:
  assumes "0 \<le> f" "0 \<le> d"
  shows "list_tick \<lparr>frame = f, direction = d\<rparr> =
     \<lparr>frame = (f + 1) mod 4, direction = (if (f + 1) mod 4 = 0 then (d + 1) mod 8 else d)\<rparr>"
  using assms by (simp add: list_tick_def js_rem_nonneg Let_def)

lemma list_tick_four:
  assumes "0 \<le> f" "f < 4" "0 \<le> d" "d < 8"
  shows "(list_tick ^^ 4) \<lparr>frame = f, direction = d\<rparr> = \<lparr>frame = f, direction = (d + 1) mod 8\<rparr>"
proof -
  from assms consider "f = 0" | "f = 1" | "f = 2" | "f = 3" by linarith
  then show ?thesis
    using assms by cases (simp_all add: numeral_eq_Suc list_tick_def js_rem_nonneg Let_def)
qed

lemma sidebar_tick_four:
  assumes "0 \<le> animationFrame s" "animationFrame s < 4"
  shows "(sidebar_tick ^^ 4) s = s"
proof -
  from assms consider "animationFrame s = 0" | "animationFrame s = 1"
    | "animationFrame s = 2" | "animationFrame s = 3" by linarith
  then show ?thesis
    by cases (simp_all add: numeral_eq_Suc sidebar_tick_def js_rem_nonneg)
qed

lemma map_of_map_upd:
  "map_of ts t = Some old \<Longrightarrow>
   map_of (map (\<lambda>p. if fst p = t then (t, new) else p) ts) t = Some new"
  by (induction ts) (auto split: if_splits)

lemma timer_fired_list:
  "map_of (timers s) t = Some (ListTicker c img cur) \<Longrightarrow>
   map_of (timers (timer_fired t s)) t = Some (ListTicker c img (list_tick cur))"
  by (simp add: timer_fired_def Let_def paint_def map_of_map_upd)

lemma timer_fired_editor:
  "map_of (timers s) t = Some (EditorTicker cur) \<Longrightarrow>
   map_of (timers (timer_fired t s)) t = Some (EditorTicker (editor_tick cur))"
  by (simp add: timer_fired_def Let_def paint_def map_of_map_upd)

lemma timer_fired_sidebar:
  "map_of (timers s) t = Some (SidebarTicker w) \<Longrightarrow>
   animationFrame (timer_fired t s) = animationFrame (sidebar_tick s) \<and>
   animationDirection (timer_fired t s) = animationDirection s"
  by (simp add: timer_fired_def sidebar_tick_def draw_sidebar_def paint_def Let_def)

text \<open>
  The direction of the sidebar is assigned by \<^verbatim>\<open>prevDirection\<close> and
  \<^verbatim>\<open>nextDirection\<close> alone: function by function, no other code changes it.
\<close>

lemma adir_services [simp]:
  "animationDirection (paint c ops s) = animationDirection s"
  "animationDirection (request_image ld s) = animationDirection s"
  "animationDirection (clearInterval t s) = animationDirection s"
  "animationDirection (setInterval tk s) = animationDirection s"
  by (simp_all add: paint_def request_image_def clearInterval_def setInterval_def)

lemma adir_fold_clear [simp]:
  "animationDirection (fold (\<lambda>anim. clearInterval (snd anim)) as s) = animationDirection s"
  by (induction as arbitrary: s) simp_all

lemma adir_draw_sidebar [simp]: "animationDirection (draw_sidebar w s) = animationDirection s"
  by (simp add: draw_sidebar_def Let_def)

lemma adir_stopAnimation [simp]: "animationDirection (stopAnimation s) = animationDirection s"
  by (simp add: stopAnimation_def split: option.splits)

lemma adir_startAnimation [simp]: "animationDirection (startAnimation s) = animationDirection s"
  by (simp add: startAnimation_def Let_def)

lemma adir_stopEditorPreview [simp]:
  "animationDirection (stopEditorPreview s) = animationDirection s"
  by (simp add: stopEditorPreview_def split: option.splits)

lemma adir_startEditorPreview [simp]:
  "animationDirection (startEditorPreview s) = animationDirection s"
  by (simp add: startEditorPreview_def Let_def)

lemma adir_render_entry [simp]: "animationDirection (render_entry P s e) = animationDirection s"
  by (simp add: render_entry_def startEnemyListAnimation_def Let_def split: option.splits)

lemma adir_foldl_render [simp]:
  "animationDirection (foldl (render_entry P) s es) = animationDirection s"
  by (induction es arbitrary: s) simp_all

lemma adir_renderEnemyList [simp]:
  "animationDirection (renderEnemyList P s) = animationDirection s"
  by (simp add: renderEnemyList_def Let_def)

lemma adir_loadData [simp]: "animationDirection (loadData P r s) = animationDirection s"
  by (simp add: loadData_def updateSpriteSelects_def split: option.splits)

lemma adir_form [simp]:
  "animationDirection (updateAttackTypeUI P s) = animationDirection s"
  "animationDirection (loadWeaponSprite p s) = animationDirection s"
  "animationDirection (updateWeaponOffsetUI s) = animationDirection s"
  "animationDirection (showEditor s) = animationDirection s"
  "animationDirection (hideEditor s) = animationDirection s"
  "animationDirection (updateColorPreview s) = animationDirection s"
  "animationDirection (updatePreviewScale x s) = animationDirection s"
  "animationDirection (updateWeaponOffset P s) = animationDirection s"
  "animationDirection (previewSprite fn s) = animationDirection s"
  "animationDirection (loadPlayerSprite s) = animationDirection s"
  "animationDirection (adjustWeaponOffset dx dy s) = animationDirection s"
  "animationDirection (applyWeaponOffsetToForm s) = animationDirection s"
  "animationDirection (on_preview_scale_input x s) = animationDirection s"
  by (simp_all add: updateAttackTypeUI_def loadWeaponSprite_def updateWeaponOffsetUI_def
      showEditor_def hideEditor_def updateColorPreview_def updatePreviewScale_def
      updateWeaponOffset_def previewSprite_def loadPlayerSprite_def adjustWeaponOffset_def
      applyWeaponOffsetToForm_def on_preview_scale_input_def Let_def)

lemma adir_createNewEnemy [simp]: "animationDirection (createNewEnemy P s) = animationDirection s"
  by (simp add: createNewEnemy_def Let_def)

lemma adir_selectEnemy [simp]: "animationDirection (selectEnemy P eid s) = animationDirection s"
  by (simp add: selectEnemy_def Let_def split: option.splits)

lemma adir_saveEnemy [simp]: "animationDirection (saveEnemy P r s) = animationDirection s"
  by (simp add: saveEnemy_def Let_def split: response.splits)

lemma adir_deleteEnemy [simp]: "animationDirection (deleteEnemy P b r s) = animationDirection s"
  by (simp add: deleteEnemy_def Let_def split: response.splits)

lemma adir_cancelEdit [simp]: "animationDirection (cancelEdit P s) = animationDirection s"
  by (simp add: cancelEdit_def)

lemma adir_loadCurrentSprites [simp]:
  "animationDirection (loadCurrentSprites P s) = animationDirection s"
  by (simp add: loadCurrentSprites_def Let_def)

lemma adir_togglePreviewPanel [simp]:
  "animationDirection (togglePreviewPanel P s) = animationDirection s"
  by (simp add: togglePreviewPanel_def Let_def)

lemma adir_deleteSprite [simp]: "animationDirection (deleteSprite P b r s) = animationDirection s"
  by (simp add: deleteSprite_def Let_def split: response.splits)

lemma adir_listeners [simp]:
  "animationDirection (on_sprite_path_change v s) = animationDirection s"
  "animationDirection (on_sprite_scale_change P v s) = animationDirection s"
  "animationDirection (on_attack_type_change P a s) = animationDirection s"
  "animationDirection (on_weapon_path_change v s) = animationDirection s"
  "animationDirection (on_weapon_offset_x_input P v s) = animationDirection s"
  "animationDirection (on_weapon_offset_y_input P v s) = animationDirection s"
  by (simp_all add: on_sprite_path_change_def on_sprite_scale_change_def on_attack_type_change_def
      on_weapon_path_change_def on_weapon_offset_x_input_def on_weapon_offset_y_input_def Let_def)

lemma adir_timer_fired [simp]: "animationDirection (timer_fired t s) = animationDirection s"
  by (simp add: timer_fired_def sidebar_tick_def Let_def split: option.splits ticker.splits)

lemma adir_timeout_fired [simp]: "animationDirection (timeout_fired s) = animationDirection s"
  by (simp add: timeout_fired_def)

lemma adir_image_loaded [simp]: "animationDirection (image_loaded n s) = animationDirection s"
  by (simp add: image_loaded_def Let_def split: option.splits load.splits)

lemma adir_image_failed [simp]: "animationDirection (image_failed n s) = animationDirection s"
  by (simp add: image_failed_def Let_def split: option.splits load.splits)

lemma adir_step:
  "ev \<noteq> PrevDirection \<Longrightarrow> ev \<noteq> NextDirection \<Longrightarrow>
   animationDirection (step P ev s) = animationDirection s"
  by (cases ev) simp_all

text \<open>
  C1, as amended. On the thumbnail clock and on the editor clock one tick takes a cursor
  \<open>(f, d)\<close> of the grid to \<open>((f + 1) mod 4, d')\<close>, where \<open>d'\<close> is \<open>(d + 1) mod 8\<close> exactly
  when the new frame is 0, and four ticks take \<open>(f, d)\<close> to \<open>(f, (d + 1) mod 8)\<close>. On the
  sidebar clock a tick advances the frame only: the direction is the same after one tick
  and after four. The next three conjuncts say that these are the transitions a firing
  timer performs, and the last three that the direction of the sidebar changes through
  \<^verbatim>\<open>prevDirection\<close> and \<^verbatim>\<open>nextDirection\<close> only: every other event of the page leaves
  it as it is.
\<close>

theorem tick_law_by_clock:
  assumes "0 \<le> f" "f < 4" "0 \<le> d" "d < 8"
  shows
    "list_tick \<lparr>frame = f, direction = d\<rparr> =
       \<lparr>frame = (f + 1) mod 4, direction = (if (f + 1) mod 4 = 0 then (d + 1) mod 8 else d)\<rparr> \<and>
     editor_tick \<lparr>frame = f, direction = d\<rparr> =
       \<lparr>frame = (f + 1) mod 4, direction = (if (f + 1) mod 4 = 0 then (d + 1) mod 8 else d)\<rparr> \<and>
     (list_tick ^^ 4) \<lparr>frame = f, direction = d\<rparr> = \<lparr>frame = f, direction = (d + 1) mod 8\<rparr> \<and>
     (editor_tick ^^ 4) \<lparr>frame = f, direction = d\<rparr> = \<lparr>frame = f, direction = (d + 1) mod 8\<rparr> \<and>
     (animationFrame s = f \<and> animationDirection s = d \<longrightarrow>
        animationFrame (sidebar_tick s) = (f + 1) mod 4 \<and>
        animationDirection (sidebar_tick s) = d \<and>
        animationFrame ((sidebar_tick ^^ 4) s) = f \<and>
        animationDirection ((sidebar_tick ^^ 4) s) = d) \<and>
     (map_of (timers s) t = Some (ListTicker c img \<lparr>frame = f, direction = d\<rparr>) \<longrightarrow>
        map_of (timers (timer_fired t s)) t =
          Some (ListTicker c img (list_tick \<lparr>frame = f, direction = d\<rparr>))) \<and>
     (map_of (timers s) t = Some (EditorTicker \<lparr>frame = f, direction = d\<rparr>) \<longrightarrow>
        map_of (timers (timer_fired t s)) t =
          Some (EditorTicker (editor_tick \<lparr>frame = f, direction = d\<rparr>))) \<and>
     (map_of (timers s) t = Some (SidebarTicker w) \<longrightarrow>
        animationFrame (timer_fired t s) = animationFrame (sidebar_tick s) \<and>
        animationDirection (timer_fired t s) = animationDirection s) \<and>
     (ev \<noteq> PrevDirection \<and> ev \<noteq> NextDirection \<longrightarrow>
        animationDirection (step P ev s) = animationDirection s) \<and>
     animationDirection (step P PrevDirection s) = js_rem (animationDirection s - 1 + 8) 8 \<and>
     animationDirection (step P NextDirection s) = js_rem (animationDirection s + 1) 8"
proof -
  have one: "list_tick \<lparr>frame = f, direction = d\<rparr> =
       \<lparr>frame = (f + 1) mod 4, direction = (if (f + 1) mod 4 = 0 then (d + 1) mod 8 else d)\<rparr>"
    using assms by (intro list_tick_once) simp_all
  have four: "(list_tick ^^ 4) \<lparr>frame = f, direction = d\<rparr> = \<lparr>frame = f, direction = (d + 1) mod 8\<rparr>"
    using assms by (rule list_tick_four)
  have side: "animationFrame s = f \<and> animationDirection s = d \<longrightarrow>
        animationFrame (sidebar_tick s) = (f + 1) mod 4 \<and>
        animationDirection (sidebar_tick s) = d \<and>
        animationFrame ((sidebar_tick ^^ 4) s) = f \<and>
        animationDirection ((sidebar_tick ^^ 4) s) = d"
  proof
    assume a: "animationFrame s = f \<and> animationDirection s = d"
    with assms have "(sidebar_tick ^^ 4) s = s" by (intro sidebar_tick_four) simp_all
    with a assms show "animationFrame (sidebar_tick s) = (f + 1) mod 4 \<and>
        animationDirection (sidebar_tick s) = d \<and>
        animationFrame ((sidebar_tick ^^ 4) s) = f \<and>
        animationDirection ((sidebar_tick ^^ 4) s) = d"
      by (simp add: sidebar_tick_def js_rem_nonneg)
  qed
  have e_one: "editor_tick \<lparr>frame = f, direction = d\<rparr> =
       \<lparr>frame = (f + 1) mod 4, direction = (if (f + 1) mod 4 = 0 then (d + 1) mod 8 else d)\<rparr>"
    using one by (simp only: editor_tick_eq)
  have e_four: "(editor_tick ^^ 4) \<lparr>frame = f, direction = d\<rparr> =
       \<lparr>frame = f, direction = (d + 1) mod 8\<rparr>"
    using four by (simp only: editor_tick_eq)
  have tl: "map_of (timers s) t = Some (ListTicker c img \<lparr>frame = f, direction = d\<rparr>) \<longrightarrow>
        map_of (timers (timer_fired t s)) t =
          Some (ListTicker c img (list_tick \<lparr>frame = f, direction = d\<rparr>))"
    by (blast intro: timer_fired_list)
  have te: "map_of (timers s) t = Some (EditorTicker \<lparr>frame = f, direction = d\<rparr>) \<longrightarrow>
        map_of (timers (timer_fired t s)) t =
          Some (EditorTicker (editor_tick \<lparr>frame = f, direction = d\<rparr>))"
    by (blast intro: timer_fired_editor)
  have ts: "map_of (timers s) t = Some (SidebarTicker w) \<longrightarrow>
        animationFrame (timer_fired t s) = animationFrame (sidebar_tick s) \<and>
        animationDirection (timer_fired t s) = animationDirection s"
    by (blast dest: timer_fired_sidebar)
  have dir: "ev \<noteq> PrevDirection \<and> ev \<noteq> NextDirection \<longrightarrow>
        animationDirection (step P ev s) = animationDirection s"
    by (blast intro: adir_step)
  have pn: "animationDirection (step P PrevDirection s) = js_rem (animationDirection s - 1 + 8) 8"
    "animationDirection (step P NextDirection s) = js_rem (animationDirection s + 1) 8"
    by (simp_all add: prevDirection_def nextDirection_def)
  from one e_one four e_four side tl te ts dir pn show ?thesis
    by blast
qed

theorem tick_law_by_clock_witness:
  "(list_tick ^^ 4) \<lparr>frame = 2, direction = 7\<rparr> = \<lparr>frame = 2, direction = 0\<rparr> \<and>
   (editor_tick ^^ 4) \<lparr>frame = 2, direction = 7\<rparr> = \<lparr>frame = 2, direction = 0\<rparr> \<and>
   list_tick \<lparr>frame = 3, direction = 7\<rparr> = \<lparr>frame = 0, direction = 0\<rparr> \<and>
   animationDirection
     ((sidebar_tick ^^ 4) (init\<lparr>animationFrame := 2, animationDirection := 7\<rparr>)) = 7 \<and>
   map_of (timers (run P0 (rat_loaded @ [TimeoutFired]) init)) 2 =
     Some (ListTicker 1 ''/api/sprites/rat.png'' \<lparr>frame = 0, direction = 0\<rparr>) \<and>
   map_of (timers (timer_fired 2 (run P0 (rat_loaded @ [TimeoutFired]) init))) 2 =
     Some (ListTicker 1 ''/api/sprites/rat.png'' \<lparr>frame = 1, direction = 0\<rparr>) \<and>
   map_of (timers (run P0 (rat_loaded @ [TimeoutFired]) init)) 3 =
     Some (EditorTicker \<lparr>frame = 0, direction = 0\<rparr>) \<and>
   map_of (timers (timer_fired 3 (run P0 (rat_loaded @ [TimeoutFired]) init))) 3 =
     Some (EditorTicker \<lparr>frame = 1, direction = 0\<rparr>) \<and>
   map_of (timers (run P0 [TogglePreviewPanel] init)) 1 = Some (SidebarTicker True) \<and>
   animationFrame (timer_fired 1 (run P0 [TogglePreviewPanel] init)) = 1 \<and>
   animationDirection (timer_fired 1 (run P0 [TogglePreviewPanel] init)) = 0 \<and>
   animationDirection (step P0 CreateNewEnemy (run P0 [TogglePreviewPanel] init)) = 0"
proof -
  have l: "map_of (timers (run P0 (rat_loaded @ [TimeoutFired]) init)) 2 =
     Some (ListTicker 1 ''/api/sprites/rat.png'' \<lparr>frame = 0, direction = 0\<rparr>)"
    by code_simp
  have e: "map_of (timers (run P0 (rat_loaded @ [TimeoutFired]) init)) 3 =
     Some (EditorTicker \<lparr>frame = 0, direction = 0\<rparr>)"
    by code_simp
  have b: "map_of (timers (run P0 [TogglePreviewPanel] init)) 1 = Some (SidebarTicker True)"
    by code_simp
  have c: "animationFrame (run P0 [TogglePreviewPanel] init) = 0"
    "animationDirection (run P0 [TogglePreviewPanel] init) = 0"
    by code_simp+
  from tick_law_by_clock [of 2 7 "init\<lparr>animationFrame := 2, animationDirection := 7\<rparr>"]
    tick_law_by_clock [of 3 7 init]
    tick_law_by_clock [of 0 0 "run P0 (rat_loaded @ [TimeoutFired]) init" 2 1 "''/api/sprites/rat.png''"]
    tick_law_by_clock [of 0 0 "run P0 (rat_loaded @ [TimeoutFired]) init" 3]
    tick_law_by_clock [of 0 0 "run P0 [TogglePreviewPanel] init" 1 _ _ True CreateNewEnemy P0]
    l e b c
  show ?thesis by simp
qed

text \<open>
  C1 as stated fails on the sidebar clock. The sidebar is opened and its timer (handle 1)
  fires three times: the cursor is (3, 0). The fourth tick wraps the frame to 0 and leaves
  the direction at 0, where the claim requires 1.
\<close>

theorem sidebar_tick_keeps_direction:
  "map_of (timers (run P0 [TogglePreviewPanel, TimerFired 1, TimerFired 1, TimerFired 1] init)) 1
     = Some (SidebarTicker True) \<and>
   animationFrame (run P0 [TogglePreviewPanel, TimerFired 1, TimerFired 1, TimerFired 1] init) = 3 \<and>
   animationDirection (run P0 [TogglePreviewPanel, TimerFired 1, TimerFired 1, TimerFired 1] init) = 0 \<and>
   animationFrame
     (run P0 [TogglePreviewPanel, TimerFired 1, TimerFired 1, TimerFired 1, TimerFired 1] init) = 0 \<and>
   animationDirection
     (run P0 [TogglePreviewPanel, TimerFired 1, TimerFired 1, TimerFired 1, TimerFired 1] init) = 0"
  by code_simp

section \<open>Every cursor stays within the grid\<close>

text \<open>
  \<open>cursors_in_range\<close> only reads the module cursor and the table of timers, so an
  update of any other field keeps it; then function by function, in the order of the
  calls.
\<close>

lemma cir_upd [simp]:
  "cursors_in_range (enemyTypes_update f1 s) = cursors_in_range s"
  "cursors_in_range (currentEnemyId_update f2 s) = cursors_in_range s"
  "cursors_in_range (currentSpriteImage_update f3 s) = cursors_in_range s"
  "cursors_in_range (currentWeaponImage_update f3 s) = cursors_in_range s"
  "cursors_in_range (playerSpriteImage_update f3 s) = cursors_in_range s"
  "cursors_in_range (animationInterval_update f4 s) = cursors_in_range s"
  "cursors_in_range (currentPreviewScale_update f5 s) = cursors_in_range s"
  "cursors_in_range (currentWeaponOffsetX_update f6 s) = cursors_in_range s"
  "cursors_in_range (currentWeaponOffsetY_update f6 s) = cursors_in_range s"
  "cursors_in_range (previewSidebarVisible_update f7 s) = cursors_in_range s"
  "cursors_in_range (enemyListAnimations_update f8 s) = cursors_in_range s"
  "cursors_in_range (editorPreviewAnimation_update f4 s) = cursors_in_range s"
  "cursors_in_range (form_update f9 s) = cursors_in_range s"
  "cursors_in_range (editor_hidden_update f7 s) = cursors_in_range s"
  "cursors_in_range (welcome_hidden_update f7 s) = cursors_in_range s"
  "cursors_in_range (sidebar_hidden_update f7 s) = cursors_in_range s"
  "cursors_in_range (list_canvases_update f8 s) = cursors_in_range s"
  "cursors_in_range (next_elem_update f10 s) = cursors_in_range s"
  "cursors_in_range (has_enemy_canvas_update f7 s) = cursors_in_range s"
  "cursors_in_range (has_player_canvas_update f7 s) = cursors_in_range s"
  "cursors_in_range (has_weapon_canvas_update f7 s) = cursors_in_range s"
  "cursors_in_range (has_editor_canvas_update f7 s) = cursors_in_range s"
  "cursors_in_range (canvas_update f11 s) = cursors_in_range s"
  "cursors_in_range (next_timer_update f10 s) = cursors_in_range s"
  "cursors_in_range (loads_update f12 s) = cursors_in_range s"
  "cursors_in_range (next_load_update f10 s) = cursors_in_range s"
  "cursors_in_range (timeouts_update f10 s) = cursors_in_range s"
  by (simp_all add: cursors_in_range_def)

lemma cir_paint [simp]: "cursors_in_range (paint c ops s) = cursors_in_range s"
  by (simp add: paint_def)

lemma cir_request_image [simp]: "cursors_in_range (request_image ld s) = cursors_in_range s"
  by (simp add: request_image_def)

lemma cir_clearInterval [simp]: "cursors_in_range s \<Longrightarrow> cursors_in_range (clearInterval t s)"
  by (simp add: clearInterval_def cursors_in_range_def list_all_iff)

lemma cir_setInterval [simp]:
  "cursors_in_range s \<Longrightarrow> ticker_ok tk \<Longrightarrow> cursors_in_range (setInterval tk s)"
  by (simp add: setInterval_def cursors_in_range_def)

lemma cir_fold_clear [simp]:
  "cursors_in_range s \<Longrightarrow> cursors_in_range (fold (\<lambda>anim. clearInterval (snd anim)) as s)"
  by (induction as arbitrary: s) simp_all

lemma cursor_ok_zero [simp]: "cursor_ok \<lparr>frame = 0, direction = 0\<rparr>"
  by (simp add: cursor_ok_def)

lemma cursor_ok_list_tick [simp]: "cursor_ok c \<Longrightarrow> cursor_ok (list_tick c)"
  by (auto simp: cursor_ok_def list_tick_def Let_def js_rem_nonneg)
   

lemma cursor_ok_editor_tick [simp]: "cursor_ok c \<Longrightarrow> cursor_ok (editor_tick c)"
  by (auto simp: cursor_ok_def editor_tick_def Let_def js_rem_nonneg)

lemma cir_draw_sidebar [simp]: "cursors_in_range (draw_sidebar w s) = cursors_in_range s"
  by (simp add: draw_sidebar_def Let_def)

lemma cir_stopAnimation [simp]: "cursors_in_range s \<Longrightarrow> cursors_in_range (stopAnimation s)"
  by (simp add: stopAnimation_def split: option.splits)

lemma cir_startAnimation [simp]: "cursors_in_range s \<Longrightarrow> cursors_in_range (startAnimation s)"
  by (simp add: startAnimation_def Let_def)

lemma cir_stopEditorPreview [simp]: "cursors_in_range s \<Longrightarrow> cursors_in_range (stopEditorPreview s)"
  by (simp add: stopEditorPreview_def split: option.splits)

lemma cir_startEditorPreview [simp]: "cursors_in_range s \<Longrightarrow> cursors_in_range (startEditorPreview s)"
  by (simp add: startEditorPreview_def Let_def)

lemma cir_render_entry [simp]: "cursors_in_range (render_entry P s e) = cursors_in_range s"
  by (simp add: render_entry_def startEnemyListAnimation_def Let_def split: option.splits)

lemma cir_foldl_render [simp]: "cursors_in_range (foldl (render_entry P) s es) = cursors_in_range s"
  by (induction es arbitrary: s) simp_all

lemma cir_renderEnemyList [simp]: "cursors_in_range s \<Longrightarrow> cursors_in_range (renderEnemyList P s)"
  by (simp add: renderEnemyList_def Let_def)

lemma cir_loadData [simp]: "cursors_in_range s \<Longrightarrow> cursors_in_range (loadData P r s)"
  by (simp add: loadData_def updateSpriteSelects_def split: option.splits)

lemma cir_updateAttackTypeUI [simp]: "cursors_in_range (updateAttackTypeUI P s) = cursors_in_range s"
  by (simp add: updateAttackTypeUI_def Let_def)

lemma cir_loadWeaponSprite [simp]: "cursors_in_range (loadWeaponSprite p s) = cursors_in_range s"
  by (simp add: loadWeaponSprite_def Let_def)

lemma cir_updateWeaponOffsetUI [simp]: "cursors_in_range (updateWeaponOffsetUI s) = cursors_in_range s"
  by (simp add: updateWeaponOffsetUI_def Let_def)

lemma cir_misc [simp]:
  "cursors_in_range (showEditor s) = cursors_in_range s"
  "cursors_in_range (hideEditor s) = cursors_in_range s"
  "cursors_in_range (updateColorPreview s) = cursors_in_range s"
  "cursors_in_range (updatePreviewScale x s) = cursors_in_range s"
  "cursors_in_range (updateWeaponOffset P s) = cursors_in_range s"
  "cursors_in_range (previewSprite fn s) = cursors_in_range s"
  "cursors_in_range (loadPlayerSprite s) = cursors_in_range s"
  "cursors_in_range (adjustWeaponOffset dx dy s) = cursors_in_range s"
  "cursors_in_range (applyWeaponOffsetToForm s) = cursors_in_range s"
  "cursors_in_range (on_preview_scale_input x s) = cursors_in_range s"
  by (simp_all add: showEditor_def hideEditor_def updateColorPreview_def updatePreviewScale_def
      updateWeaponOffset_def previewSprite_def loadPlayerSprite_def adjustWeaponOffset_def
      applyWeaponOffsetToForm_def on_preview_scale_input_def)

lemma cir_createNewEnemy [simp]: "cursors_in_range s \<Longrightarrow> cursors_in_range (createNewEnemy P s)"
  by (simp add: createNewEnemy_def Let_def)

lemma cir_selectEnemy [simp]: "cursors_in_range s \<Longrightarrow> cursors_in_range (selectEnemy P eid s)"
  by (simp add: selectEnemy_def Let_def split: option.splits)

lemma cir_saveEnemy [simp]: "cursors_in_range s \<Longrightarrow> cursors_in_range (saveEnemy P r s)"
  by (simp add: saveEnemy_def Let_def split: response.splits)

lemma cir_deleteEnemy [simp]: "cursors_in_range s \<Longrightarrow> cursors_in_range (deleteEnemy P b r s)"
  by (simp add: deleteEnemy_def Let_def split: response.splits)

lemma cir_cancelEdit [simp]: "cursors_in_range s \<Longrightarrow> cursors_in_range (cancelEdit P s)"
  by (simp add: cancelEdit_def)

lemma cir_loadCurrentSprites [simp]: "cursors_in_range (loadCurrentSprites P s) = cursors_in_range s"
  by (simp add: loadCurrentSprites_def Let_def)

lemma cir_togglePreviewPanel [simp]: "cursors_in_range s \<Longrightarrow> cursors_in_range (togglePreviewPanel P s)"
  by (simp add: togglePreviewPanel_def Let_def)

lemma cir_deleteSprite [simp]: "cursors_in_range s \<Longrightarrow> cursors_in_range (deleteSprite P b r s)"
  by (simp add: deleteSprite_def Let_def split: response.splits)

lemma cir_prevDirection [simp]: "cursors_in_range s \<Longrightarrow> cursors_in_range (prevDirection s)"
  by (auto simp: prevDirection_def cursors_in_range_def js_rem_nonneg)

lemma cir_nextDirection [simp]: "cursors_in_range s \<Longrightarrow> cursors_in_range (nextDirection s)"
  by (auto simp: nextDirection_def cursors_in_range_def js_rem_nonneg)

lemma cir_listeners [simp]:
  "cursors_in_range s \<Longrightarrow> cursors_in_range (on_sprite_path_change v s)"
  "cursors_in_range s \<Longrightarrow> cursors_in_range (on_sprite_scale_change P v s)"
  "cursors_in_range s \<Longrightarrow> cursors_in_range (on_attack_type_change P a s)"
  "cursors_in_range s \<Longrightarrow> cursors_in_range (on_weapon_path_change v s)"
  "cursors_in_range s \<Longrightarrow> cursors_in_range (on_weapon_offset_x_input P v s)"
  "cursors_in_range s \<Longrightarrow> cursors_in_range (on_weapon_offset_y_input P v s)"
  by (simp_all add: on_sprite_path_change_def on_sprite_scale_change_def on_attack_type_change_def
      on_weapon_path_change_def on_weapon_offset_x_input_def on_weapon_offset_y_input_def Let_def)

lemma cir_sidebar_tick [simp]: "cursors_in_range s \<Longrightarrow> cursors_in_range (sidebar_tick s)"
  by (auto simp: sidebar_tick_def cursors_in_range_def js_rem_nonneg)

lemma map_of_ticker_ok:
  "list_all (\<lambda>p. ticker_ok (snd p)) ts \<Longrightarrow> map_of ts t = Some tk \<Longrightarrow> ticker_ok tk"
  by (fastforce simp: list_all_iff dest: map_of_SomeD)

lemma cir_timers_upd:
  "cursors_in_range s \<Longrightarrow> list_all (\<lambda>p. ticker_ok (snd p)) ts \<Longrightarrow>
   cursors_in_range (s\<lparr>timers := ts\<rparr>)"
  by (simp add: cursors_in_range_def)

lemma list_all_map_upd:
  "list_all (\<lambda>p. ticker_ok (snd p)) ts \<Longrightarrow> ticker_ok tk \<Longrightarrow>
   list_all (\<lambda>p. ticker_ok (snd p)) (map (\<lambda>p. if fst p = t then (t, tk) else p) ts)"
  by (induction ts) auto

lemma cir_timer_fired [simp]: "cursors_in_range s \<Longrightarrow> cursors_in_range (timer_fired t s)"
proof -
  assume a: "cursors_in_range s"
  then have all: "list_all (\<lambda>p. ticker_ok (snd p)) (timers s)"
    by (simp add: cursors_in_range_def)
  show ?thesis
  proof (cases "map_of (timers s) t")
    case None
    then show ?thesis using a by (simp add: timer_fired_def)
  next
    case (Some tk)
    then have ok: "ticker_ok tk" using all by (rule map_of_ticker_ok[rotated])
    show ?thesis
    proof (cases tk)
      case (ListTicker c img cur)
      with ok have "ticker_ok (ListTicker c img (list_tick cur))" by simp
      from cir_timers_upd[OF a list_all_map_upd[OF all this]] Some ListTicker show ?thesis
        by (simp add: timer_fired_def Let_def)
    next
      case (SidebarTicker w)
      with a Some show ?thesis by (simp add: timer_fired_def)
    next
      case (EditorTicker cur)
      with ok have "ticker_ok (EditorTicker (editor_tick cur))" by simp
      from cir_timers_upd[OF a list_all_map_upd[OF all this]] Some EditorTicker show ?thesis
        by (simp add: timer_fired_def Let_def)
    qed
  qed
qed

lemma cir_timeout_fired [simp]: "cursors_in_range s \<Longrightarrow> cursors_in_range (timeout_fired s)"
  by (simp add: timeout_fired_def)

lemma cir_image_loaded [simp]: "cursors_in_range s \<Longrightarrow> cursors_in_range (image_loaded n s)"
  by (simp add: image_loaded_def Let_def split: option.splits load.splits)

lemma cir_image_failed [simp]: "cursors_in_range s \<Longrightarrow> cursors_in_range (image_failed n s)"
  by (simp add: image_failed_def Let_def split: option.splits load.splits)

lemma cir_step: "cursors_in_range s \<Longrightarrow> cursors_in_range (step P ev s)"
  by (cases ev) simp_all

lemma cir_run: "cursors_in_range s \<Longrightarrow> cursors_in_range (run P evs s)"
  unfolding run_def by (induction evs arbitrary: s) (simp_all add: cir_step)

lemma cir_init: "cursors_in_range init"
  by (simp add: cursors_in_range_def init_def)

text \<open>
  C2. In every state the page can reach from its initial state, by any sequence of events
  (timer ticks, \<^verbatim>\<open>prevDirection\<close>, \<^verbatim>\<open>nextDirection\<close> and every other handler of the
  model), the module cursor and the cursor of every live ticker have their frame in 0..3
  and their direction in 0..7; every single step keeps this; and \<^verbatim>\<open>prevDirection\<close>
  from direction 0 yields 7, \<^verbatim>\<open>nextDirection\<close> from 7 yields 0.
\<close>

theorem cursors_always_in_range:
  "cursors_in_range (run P evs init) \<and>
   (cursors_in_range s \<longrightarrow> cursors_in_range (step P ev s)) \<and>
   (animationDirection s = 0 \<longrightarrow> animationDirection (prevDirection s) = 7) \<and>
   (animationDirection s = 7 \<longrightarrow> animationDirection (nextDirection s) = 0)"
proof (intro conjI impI)
  show "cursors_in_range (run P evs init)"
    using cir_init by (rule cir_run)
  show "cursors_in_range (step P ev s)" if "cursors_in_range s"
    using that by (rule cir_step)
  show "animationDirection (prevDirection s) = 7" if "animationDirection s = 0"
    using that by (simp add: prevDirection_def js_rem_def)
  show "animationDirection (nextDirection s) = 0" if "animationDirection s = 7"
    using that by (simp add: nextDirection_def js_rem_def)
qed

theorem cursors_always_in_range_witness:
  "cursors_in_range (run P0 [TogglePreviewPanel, TimerFired 1, PrevDirection, CreateNewEnemy] init) \<and>
   cursors_in_range
     (step P0 (TimerFired 2)
        (run P0 [TogglePreviewPanel, TimerFired 1, PrevDirection, CreateNewEnemy] init)) \<and>
   animationDirection (run P0 [TogglePreviewPanel, TimerFired 1] init) = 0 \<and>
   animationDirection (prevDirection (run P0 [TogglePreviewPanel, TimerFired 1] init)) = 7 \<and>
   animationDirection (run P0 [TogglePreviewPanel, TimerFired 1, PrevDirection] init) = 7 \<and>
   animationDirection
     (nextDirection (run P0 [TogglePreviewPanel, TimerFired 1, PrevDirection] init)) = 0"
proof -
  have h: "animationDirection (run P0 [TogglePreviewPanel, TimerFired 1] init) = 0"
    by code_simp
  have k: "animationDirection (run P0 [TogglePreviewPanel, TimerFired 1, PrevDirection] init) = 7"
    by code_simp
  from cursors_always_in_range
         [of P0 "[TogglePreviewPanel, TimerFired 1, PrevDirection, CreateNewEnemy]"
            "run P0 [TogglePreviewPanel, TimerFired 1] init"]
    cursors_always_in_range
         [of P0 "[TogglePreviewPanel, TimerFired 1, PrevDirection, CreateNewEnemy]"
            "run P0 [TogglePreviewPanel, TimerFired 1, PrevDirection, CreateNewEnemy] init"
            "TimerFired 2"]
    cursors_always_in_range
         [of P0 "[]" "run P0 [TogglePreviewPanel, TimerFired 1, PrevDirection] init"]
    h k
  show ?thesis by simp
qed

section \<open>What is drawn\<close>







section \<open>The form\<close>

text \<open>
  C4, as amended. Switching the attack type to ranged rewrites the attack range to
  \<^verbatim>\<open>'8.0'\<close> when the field reads as a number below 5 and leaves it alone when it reads
  as a number of at least 5; switching to melee rewrites it to \<^verbatim>\<open>'1.2'\<close> when the field
  reads as a number above 3 and leaves it alone when it reads as a number of at most 3; a
  field that does not read as a number is left alone. So a value strictly between 3 and 5
  is rewritten on both transitions. The last conjunct: the listener stores the new type
  and calls \<^verbatim>\<open>updateAttackTypeUI\<close>.
\<close>

theorem attack_type_coupling:
  "(field_float P (attack_range (form s)) = Some x \<and> x < 5 \<longrightarrow>
      attack_range (form (on_attack_type_change P Ranged s)) = Str ''8.0'') \<and>
   (field_float P (attack_range (form s)) = Some x \<and> 3 < x \<longrightarrow>
      attack_range (form (on_attack_type_change P Melee s)) = Str ''1.2'') \<and>
   (field_float P (attack_range (form s)) = Some x \<and> 5 \<le> x \<longrightarrow>
      attack_range (form (on_attack_type_change P Ranged s)) = attack_range (form s)) \<and>
   (field_float P (attack_range (form s)) = Some x \<and> x \<le> 3 \<longrightarrow>
      attack_range (form (on_attack_type_change P Melee s)) = attack_range (form s)) \<and>
   (field_float P (attack_range (form s)) = None \<longrightarrow>
      attack_range (form (on_attack_type_change P a s)) = attack_range (form s)) \<and>
   updateAttackTypeUI P (s\<lparr>form := (form s)\<lparr>attack_type := a\<rparr>\<rparr>) = on_attack_type_change P a s"
  by (simp add: on_attack_type_change_def updateAttackTypeUI_def Let_def)

theorem attack_type_coupling_witness:
  "attack_range (form (run P0 [CreateNewEnemy] init)) = Str ''1.2'' \<and>
   attack_range (form (on_attack_type_change P0 Ranged (run P0 [CreateNewEnemy] init))) = Str ''8.0'' \<and>
   attack_range (form (on_attack_type_change P0 Melee
      (run P0 [CreateNewEnemy, ChangeAttackType Ranged] init))) = Str ''1.2'' \<and>
   attack_range (form (on_attack_type_change P0 Ranged
      (run P0 [CreateNewEnemy, TypeAttackRange ''6''] init))) = Str ''6'' \<and>
   attack_range (form (on_attack_type_change P0 Melee
      (run P0 [CreateNewEnemy, TypeAttackRange ''2.5''] init))) = Str ''2.5'' \<and>
   attack_range (form (on_attack_type_change P0 Ranged
      (run P0 [CreateNewEnemy, TypeAttackRange ''abc''] init))) = Str ''abc''"
proof -
  have a0: "attack_range (form (run P0 [CreateNewEnemy] init)) = Str ''1.2''"
    by code_simp
  have a1: "attack_range (form (run P0 [CreateNewEnemy, ChangeAttackType Ranged] init)) = Str ''8.0''"
    by code_simp
  have a2: "attack_range (form (run P0 [CreateNewEnemy, TypeAttackRange ''6''] init)) = Str ''6''"
    by code_simp
  have a3: "attack_range (form (run P0 [CreateNewEnemy, TypeAttackRange ''2.5''] init)) = Str ''2.5''"
    by code_simp
  have a4: "attack_range (form (run P0 [CreateNewEnemy, TypeAttackRange ''abc''] init)) = Str ''abc''"
    by code_simp
  have p0: "field_float P0 (Str ''1.2'') = Some (6 / 5)" by code_simp
  have p1: "field_float P0 (Str ''8.0'') = Some 8" by code_simp
  have p2: "field_float P0 (Str ''6'') = Some 6" by code_simp
  have p3: "field_float P0 (Str ''2.5'') = Some (5 / 2)" by code_simp
  have p4: "field_float P0 (Str ''abc'') = None" by code_simp
  from attack_type_coupling [of P0 "run P0 [CreateNewEnemy] init" "6 / 5" Ranged]
    attack_type_coupling [of P0 "run P0 [CreateNewEnemy, ChangeAttackType Ranged] init" 8 Melee]
    attack_type_coupling [of P0 "run P0 [CreateNewEnemy, TypeAttackRange ''6''] init" 6 Ranged]
    attack_type_coupling [of P0 "run P0 [CreateNewEnemy, TypeAttackRange ''2.5''] init" "5 / 2" Melee]
    attack_type_coupling [of P0 "run P0 [CreateNewEnemy, TypeAttackRange ''abc''] init" 0 Ranged]
    a0 a1 a2 a3 a4 p0 p1 p2 p3 p4
  show ?thesis by simp
qed

text \<open>
  C4 as stated fails for a value between the two thresholds. With 4 in the attack range
  field, switching to ranged rewrites it to \<^verbatim>\<open>'8.0'\<close>, and with 4 in the field of a
  ranged enemy, switching to melee rewrites it to \<^verbatim>\<open>'1.2'\<close>: it is left untouched on
  neither transition.
\<close>

theorem attack_range_between_rewritten:
  "attack_range (form (run P0 [CreateNewEnemy, TypeAttackRange ''4''] init)) = Str ''4'' \<and>
   field_float P0 (Str ''4'') = Some 4 \<and>
   attack_range
     (form (run P0 [CreateNewEnemy, TypeAttackRange ''4'', ChangeAttackType Ranged] init))
     = Str ''8.0'' \<and>
   attack_range
     (form (run P0 [CreateNewEnemy, ChangeAttackType Ranged, TypeAttackRange ''4''] init))
     = Str ''4'' \<and>
   attack_range
     (form (run P0 [CreateNewEnemy, ChangeAttackType Ranged, TypeAttackRange ''4'',
                    ChangeAttackType Melee] init))
     = Str ''1.2''"
  by code_simp

lemma includes_str_sublist: "includes_str p sub \<longleftrightarrow> sublist sub p"
  by (induction p) (auto simp: sublist_Cons_right)

text \<open>
  C9, as amended. For every non-empty weapon path \<^verbatim>\<open>loadWeaponSprite\<close> issues exactly
  one image request, for the last segment of the path, at \<^verbatim>\<open>/api/weapons/\<close> if the path
  contains the substring \<^verbatim>\<open>weapon\<close> and at \<^verbatim>\<open>/api/sprites/\<close> otherwise. For the empty
  path it issues no request and clears the weapon image. The last conjunct: the test of
  the script is the substring relation.
\<close>

theorem weapon_endpoint_choice:
  "(weaponPath \<noteq> [] \<longrightarrow>
      loads (loadWeaponSprite weaponPath s) =
        loads s @
        [(next_load s,
          WeaponLoad ((if sublist ''weapon'' weaponPath then ''/api/weapons/'' else ''/api/sprites/'')
                      @ pop (split_str weaponPath CHR ''/'')))]) \<and>
   (weaponPath = [] \<longrightarrow>
      loads (loadWeaponSprite weaponPath s) = loads s \<and>
      currentWeaponImage (loadWeaponSprite weaponPath s) = None) \<and>
   includes_str weaponPath sub = sublist sub weaponPath"
  by (simp add: loadWeaponSprite_def request_image_def Let_def includes_str_sublist)

theorem weapon_endpoint_choice_witness:
  "loads (loadWeaponSprite ''game/images/enemy/weapon_goblin.png'' init) =
     [(0, WeaponLoad ''/api/weapons/weapon_goblin.png'')] \<and>
   loads (loadWeaponSprite ''game/images/enemy/club.png'' init) =
     [(0, WeaponLoad ''/api/sprites/club.png'')] \<and>
   loads (loadWeaponSprite ''game/images/weapon/sword.png'' init) =
     [(0, WeaponLoad ''/api/weapons/sword.png'')] \<and>
   loads (loadWeaponSprite [] init) = [] \<and>
   currentWeaponImage (loadWeaponSprite [] init) = None"
proof -
  have i1: "includes_str ''game/images/enemy/weapon_goblin.png'' ''weapon''" by code_simp
  have i2: "\<not> includes_str ''game/images/enemy/club.png'' ''weapon''" by code_simp
  have i3: "includes_str ''game/images/weapon/sword.png'' ''weapon''" by code_simp
  have f1: "pop (split_str ''game/images/enemy/weapon_goblin.png'' CHR ''/'') = ''weapon_goblin.png''"
    by code_simp
  have f2: "pop (split_str ''game/images/enemy/club.png'' CHR ''/'') = ''club.png''"
    by code_simp
  have f3: "pop (split_str ''game/images/weapon/sword.png'' CHR ''/'') = ''sword.png''"
    by code_simp
  have l: "loads init = []" "next_load init = 0" by (simp_all add: init_def)
  from weapon_endpoint_choice [of "''game/images/enemy/weapon_goblin.png''" init "''weapon''"]
    weapon_endpoint_choice [of "''game/images/enemy/club.png''" init "''weapon''"]
    weapon_endpoint_choice [of "''game/images/weapon/sword.png''" init "''weapon''"]
    weapon_endpoint_choice [of "[]" init "''weapon''"]
    i1 i2 i3 f1 f2 f3 l
  show ?thesis by simp
qed

text \<open>
  C9 as stated fails for the empty path: it does not contain \<^verbatim>\<open>weapon\<close>, yet no request
  goes to \<^verbatim>\<open>/api/sprites/\<close>, nor anywhere else.
\<close>

theorem empty_weapon_path_no_request:
  "\<not> includes_str [] ''weapon'' \<and>
   loads (loadWeaponSprite [] init) = [] \<and>
   next_load (loadWeaponSprite [] init) = 0"
  by code_simp

subsection \<open>Selecting an id that is not in the store\<close>

lemma get_enemy_None:
  "get_enemy ets eid = None \<longleftrightarrow> map_of ets eid = None \<and> eid \<notin> set (map fst object_prototype)"
  by (simp add: get_enemy_def map_of_eq_None_iff [symmetric] del: map_of_eq_None_iff
      split: option.splits)

lemma get_enemy_inherited:
  "map_of ets eid = None \<Longrightarrow> eid \<in> set (map fst object_prototype) \<Longrightarrow>
   \<exists>enemy. get_enemy ets eid = Some enemy"
  using get_enemy_None [of ets eid] by auto

lemma shown_fold_clear [simp]:
  "currentEnemyId (fold (\<lambda>anim. clearInterval (snd anim)) as s) = currentEnemyId s"
  "form (fold (\<lambda>anim. clearInterval (snd anim)) as s) = form s"
  "editor_hidden (fold (\<lambda>anim. clearInterval (snd anim)) as s) = editor_hidden s"
  "timeouts (fold (\<lambda>anim. clearInterval (snd anim)) as s) = timeouts s"
  by (induction as arbitrary: s) (simp_all add: clearInterval_def)

lemma shown_render_entry [simp]:
  "currentEnemyId (render_entry P s e) = currentEnemyId s"
  "form (render_entry P s e) = form s"
  "editor_hidden (render_entry P s e) = editor_hidden s"
  "timeouts (render_entry P s e) = timeouts s"
  by (simp_all add: render_entry_def startEnemyListAnimation_def request_image_def paint_def Let_def
      split: option.splits)

lemma shown_foldl_render [simp]:
  "currentEnemyId (foldl (render_entry P) s es) = currentEnemyId s"
  "form (foldl (render_entry P) s es) = form s"
  "editor_hidden (foldl (render_entry P) s es) = editor_hidden s"
  "timeouts (foldl (render_entry P) s es) = timeouts s"
  by (induction es arbitrary: s) simp_all

lemma shown_renderEnemyList [simp]:
  "currentEnemyId (renderEnemyList P s) = currentEnemyId s"
  "form (renderEnemyList P s) = form s"
  "editor_hidden (renderEnemyList P s) = editor_hidden s"
  "timeouts (renderEnemyList P s) = timeouts s"
  by (simp_all add: renderEnemyList_def Let_def)

lemma shown_updateAttackTypeUI [simp]:
  "currentEnemyId (updateAttackTypeUI P s) = currentEnemyId s"
  "enemy_id (form (updateAttackTypeUI P s)) = enemy_id (form s)"
  "enemy_id_input (form (updateAttackTypeUI P s)) = enemy_id_input (form s)"
  "enemy_id_input_disabled (form (updateAttackTypeUI P s)) = enemy_id_input_disabled (form s)"
  "enemy_name (form (updateAttackTypeUI P s)) = enemy_name (form s)"
  "editor_hidden (updateAttackTypeUI P s) = editor_hidden s"
  "timeouts (updateAttackTypeUI P s) = timeouts s"
  by (simp_all add: updateAttackTypeUI_def Let_def)

lemma shown_updateColorPreview [simp]:
  "currentEnemyId (updateColorPreview s) = currentEnemyId s"
  "enemy_id (form (updateColorPreview s)) = enemy_id (form s)"
  "enemy_id_input (form (updateColorPreview s)) = enemy_id_input (form s)"
  "enemy_id_input_disabled (form (updateColorPreview s)) = enemy_id_input_disabled (form s)"
  "enemy_name (form (updateColorPreview s)) = enemy_name (form s)"
  "editor_hidden (updateColorPreview s) = editor_hidden s"
  "timeouts (updateColorPreview s) = timeouts s"
  by (simp_all add: updateColorPreview_def Let_def)

lemma shown_updatePreviewScale [simp]:
  "currentEnemyId (updatePreviewScale x s) = currentEnemyId s"
  "enemy_id (form (updatePreviewScale x s)) = enemy_id (form s)"
  "enemy_id_input (form (updatePreviewScale x s)) = enemy_id_input (form s)"
  "enemy_id_input_disabled (form (updatePreviewScale x s)) = enemy_id_input_disabled (form s)"
  "enemy_name (form (updatePreviewScale x s)) = enemy_name (form s)"
  "editor_hidden (updatePreviewScale x s) = editor_hidden s"
  "timeouts (updatePreviewScale x s) = timeouts s"
  by (simp_all add: updatePreviewScale_def Let_def)

lemma shown_previewSprite [simp]:
  "currentEnemyId (previewSprite x s) = currentEnemyId s"
  "form (previewSprite x s) = form s"
  "editor_hidden (previewSprite x s) = editor_hidden s"
  "timeouts (previewSprite x s) = timeouts s"
  by (simp_all add: previewSprite_def request_image_def Let_def)

lemma shown_loadWeaponSprite [simp]:
  "currentEnemyId (loadWeaponSprite x s) = currentEnemyId s"
  "form (loadWeaponSprite x s) = form s"
  "editor_hidden (loadWeaponSprite x s) = editor_hidden s"
  "timeouts (loadWeaponSprite x s) = timeouts s"
  by (simp_all add: loadWeaponSprite_def request_image_def Let_def)

lemma shown_updateWeaponOffsetUI [simp]:
  "currentEnemyId (updateWeaponOffsetUI s) = currentEnemyId s"
  "enemy_id (form (updateWeaponOffsetUI s)) = enemy_id (form s)"
  "enemy_id_input (form (updateWeaponOffsetUI s)) = enemy_id_input (form s)"
  "enemy_id_input_disabled (form (updateWeaponOffsetUI s)) = enemy_id_input_disabled (form s)"
  "enemy_name (form (updateWeaponOffsetUI s)) = enemy_name (form s)"
  "editor_hidden (updateWeaponOffsetUI s) = editor_hidden s"
  "timeouts (updateWeaponOffsetUI s) = timeouts s"
  by (simp_all add: updateWeaponOffsetUI_def Let_def)

lemma shown_stopAnimation [simp]:
  "currentEnemyId (stopAnimation s) = currentEnemyId s"
  "form (stopAnimation s) = form s"
  "editor_hidden (stopAnimation s) = editor_hidden s"
  "timeouts (stopAnimation s) = timeouts s"
  by (simp_all add: stopAnimation_def clearInterval_def Let_def split: option.splits)

lemma shown_showEditor [simp]:
  "currentEnemyId (showEditor s) = currentEnemyId s"
  "form (showEditor s) = form s"
  "\<not> editor_hidden (showEditor s)"
  "timeouts (showEditor s) = timeouts s"
  by (simp_all add: showEditor_def Let_def)

lemma selectEnemy_absent:
  "map_of (enemyTypes s) eid = None \<Longrightarrow> eid \<notin> set (map fst object_prototype) \<Longrightarrow>
   selectEnemy P eid s = s\<lparr>currentEnemyId := Some eid\<rparr>"
  using get_enemy_None [of "enemyTypes s" eid] by (simp add: selectEnemy_def Let_def)

lemma selectEnemy_found:
  "get_enemy (enemyTypes s) eid = Some enemy \<Longrightarrow>
   currentEnemyId (selectEnemy P eid s) = Some eid \<and>
   enemy_id (form (selectEnemy P eid s)) = eid \<and>
   enemy_id_input (form (selectEnemy P eid s)) = eid \<and>
   enemy_id_input_disabled (form (selectEnemy P eid s)) \<and>
   enemy_name (form (selectEnemy P eid s)) = or_str (e_name enemy) eid \<and>
   \<not> editor_hidden (selectEnemy P eid s) \<and>
   timeouts (selectEnemy P eid s) = timeouts s + 1"
  by (simp add: selectEnemy_def Let_def)

text \<open>
  C10 does not hold of the script. \<^verbatim>\<open>enemyTypes[id]\<close> is a property lookup, and for an
  id that is no key of the store but the name of a property every object inherits
  (\<^verbatim>\<open>constructor\<close>, \<^verbatim>\<open>toString\<close>, \<^verbatim>\<open>__proto__\<close>, ...) it yields a truthy value, so
  \<^verbatim>\<open>selectEnemy\<close> does not return at its guard. With the store holding only \<open>rat\<close> and
  \<open>rat\<close> open in the editor, \<^verbatim>\<open>selectEnemy('constructor')\<close> rewrites the form (id
  \<open>constructor\<close>, name \<open>Object\<close>, no sprite and no weapon), resets the weapon offset
  from (10, 20) to (0, 0), drops the two loaded images' paths from the form and schedules
  a restart of the editor preview. In general: for an absent id that is an inherited name
  the form is rewritten, the editor shown and a restart scheduled; only for an absent id
  that is no inherited name is the call the single assignment the claim describes.
\<close>

theorem selectEnemy_inherited_id:
  "map_of (enemyTypes (run P0 rat_loaded init)) ''constructor'' = None \<and>
   enemy_id (form (run P0 rat_loaded init)) = ''rat'' \<and>
   enemy_name (form (run P0 rat_loaded init)) = ''Rat'' \<and>
   weapon_path (form (run P0 rat_loaded init)) = ''game/images/weapon/sword.png'' \<and>
   currentWeaponOffsetX (run P0 rat_loaded init) = 10 \<and>
   currentWeaponOffsetY (run P0 rat_loaded init) = 20 \<and>
   timeouts (run P0 rat_loaded init) = 1 \<and>
   currentEnemyId (selectEnemy P0 ''constructor'' (run P0 rat_loaded init)) = Some ''constructor'' \<and>
   enemy_id (form (selectEnemy P0 ''constructor'' (run P0 rat_loaded init))) = ''constructor'' \<and>
   enemy_name (form (selectEnemy P0 ''constructor'' (run P0 rat_loaded init))) = ''Object'' \<and>
   weapon_path (form (selectEnemy P0 ''constructor'' (run P0 rat_loaded init))) = [] \<and>
   currentWeaponOffsetX (selectEnemy P0 ''constructor'' (run P0 rat_loaded init)) = 0 \<and>
   currentWeaponOffsetY (selectEnemy P0 ''constructor'' (run P0 rat_loaded init)) = 0 \<and>
   timeouts (selectEnemy P0 ''constructor'' (run P0 rat_loaded init)) = 2 \<and>
   (map_of (enemyTypes s) eid = None \<and> eid \<in> set (map fst object_prototype) \<longrightarrow>
      currentEnemyId (selectEnemy P eid s) = Some eid \<and>
      enemy_id (form (selectEnemy P eid s)) = eid \<and>
      enemy_id_input (form (selectEnemy P eid s)) = eid \<and>
      enemy_id_input_disabled (form (selectEnemy P eid s)) \<and>
      \<not> editor_hidden (selectEnemy P eid s) \<and>
      timeouts (selectEnemy P eid s) = timeouts s + 1) \<and>
   (map_of (enemyTypes s) eid = None \<and> eid \<notin> set (map fst object_prototype) \<longrightarrow>
      selectEnemy P eid s = s\<lparr>currentEnemyId := Some eid\<rparr>)"
proof -
  have before: "map_of (enemyTypes (run P0 rat_loaded init)) ''constructor'' = None \<and>
   enemy_id (form (run P0 rat_loaded init)) = ''rat'' \<and>
   enemy_name (form (run P0 rat_loaded init)) = ''Rat'' \<and>
   weapon_path (form (run P0 rat_loaded init)) = ''game/images/weapon/sword.png'' \<and>
   currentWeaponOffsetX (run P0 rat_loaded init) = 10 \<and>
   currentWeaponOffsetY (run P0 rat_loaded init) = 20 \<and>
   timeouts (run P0 rat_loaded init) = 1"
    by code_simp
  have after: "currentEnemyId (selectEnemy P0 ''constructor'' (run P0 rat_loaded init)) = Some ''constructor'' \<and>
   enemy_id (form (selectEnemy P0 ''constructor'' (run P0 rat_loaded init))) = ''constructor'' \<and>
   enemy_name (form (selectEnemy P0 ''constructor'' (run P0 rat_loaded init))) = ''Object'' \<and>
   weapon_path (form (selectEnemy P0 ''constructor'' (run P0 rat_loaded init))) = [] \<and>
   currentWeaponOffsetX (selectEnemy P0 ''constructor'' (run P0 rat_loaded init)) = 0 \<and>
   currentWeaponOffsetY (selectEnemy P0 ''constructor'' (run P0 rat_loaded init)) = 0 \<and>
   timeouts (selectEnemy P0 ''constructor'' (run P0 rat_loaded init)) = 2"
    by code_simp
  have inh: "map_of (enemyTypes s) eid = None \<and> eid \<in> set (map fst object_prototype) \<longrightarrow>
      currentEnemyId (selectEnemy P eid s) = Some eid \<and>
      enemy_id (form (selectEnemy P eid s)) = eid \<and>
      enemy_id_input (form (selectEnemy P eid s)) = eid \<and>
      enemy_id_input_disabled (form (selectEnemy P eid s)) \<and>
      \<not> editor_hidden (selectEnemy P eid s) \<and>
      timeouts (selectEnemy P eid s) = timeouts s + 1"
  proof
    assume "map_of (enemyTypes s) eid = None \<and> eid \<in> set (map fst object_prototype)"
    then obtain enemy where "get_enemy (enemyTypes s) eid = Some enemy"
      using get_enemy_inherited [of "enemyTypes s" eid] by blast
    from selectEnemy_found [OF this, of P]
    show "currentEnemyId (selectEnemy P eid s) = Some eid \<and>
      enemy_id (form (selectEnemy P eid s)) = eid \<and>
      enemy_id_input (form (selectEnemy P eid s)) = eid \<and>
      enemy_id_input_disabled (form (selectEnemy P eid s)) \<and>
      \<not> editor_hidden (selectEnemy P eid s) \<and>
      timeouts (selectEnemy P eid s) = timeouts s + 1"
      by blast
  qed
  have absent: "map_of (enemyTypes s) eid = None \<and> eid \<notin> set (map fst object_prototype) \<longrightarrow>
      selectEnemy P eid s = s\<lparr>currentEnemyId := Some eid\<rparr>"
    using selectEnemy_absent [of s eid P] by blast
  from before after inh absent show ?thesis by blast
qed

theorem selectEnemy_inherited_id_witness:
  "map_of (enemyTypes (run P0 rat_loaded init)) ''toString'' = None \<and>
   ''toString'' \<in> set (map fst object_prototype) \<and>
   enemy_id (form (selectEnemy P0 ''toString'' (run P0 rat_loaded init))) = ''toString'' \<and>
   \<not> editor_hidden (selectEnemy P0 ''toString'' (run P0 rat_loaded init)) \<and>
   timeouts (selectEnemy P0 ''toString'' (run P0 rat_loaded init)) = 2 \<and>
   map_of (enemyTypes (run P0 rat_loaded init)) ''ghost'' = None \<and>
   ''ghost'' \<notin> set (map fst object_prototype) \<and>
   selectEnemy P0 ''ghost'' (run P0 rat_loaded init) =
     (run P0 rat_loaded init)\<lparr>currentEnemyId := Some ''ghost''\<rparr>"
proof -
  have a: "map_of (enemyTypes (run P0 rat_loaded init)) ''toString'' = None"
    by code_simp
  have b: "''toString'' \<in> set (map fst object_prototype)"
    by code_simp
  have c: "map_of (enemyTypes (run P0 rat_loaded init)) ''ghost'' = None"
    by code_simp
  have d: "''ghost'' \<notin> set (map fst object_prototype)"
    by code_simp
  have t: "timeouts (run P0 rat_loaded init) = 1"
    by code_simp
  from selectEnemy_inherited_id [where s = "run P0 rat_loaded init" and eid = "''toString''" and P = P0]
    selectEnemy_inherited_id [where s = "run P0 rat_loaded init" and eid = "''ghost''" and P = P0]
    a b c d t
  show ?thesis by simp
qed

section \<open>Saving a new enemy\<close>





section \<open>Thumbnails without a sprite\<close>

text \<open>
  Rendering the list entry by entry: every entry gets a fresh canvas element, registered
  under the id the parser reads back from the markup. When that is the id the script
  looks up, for every entry, and the ids of the entries differ, each entry finds its own
  canvas, and only an entry without a sprite draws on it.
\<close>

lemma render_entry_next_elem [simp]: "next_elem (render_entry P s e) = next_elem s + 1"
  by (simp add: render_entry_def startEnemyListAnimation_def request_image_def paint_def Let_def
      split: option.splits)

lemma render_entry_list_canvases [simp]:
  "list_canvases (render_entry P s e) =
     list_canvases s @ [(attribute_value P (''enemy-preview-'' @ fst e), next_elem s)]"
  by (simp add: render_entry_def startEnemyListAnimation_def request_image_def paint_def Let_def
      split: option.splits)

lemma render_entry_canvas:
  assumes "''enemy-preview-'' @ fst e \<notin> fst ` set (list_canvases s)"
    "attribute_value P (''enemy-preview-'' @ fst e) = ''enemy-preview-'' @ fst e"
  shows "canvas (render_entry P s e) =
     (if truthy (e_sprite_path (snd e)) then canvas s
      else (canvas s)(ListCanvas (next_elem s) :=
             canvas s (ListCanvas (next_elem s)) @
             color_square (case e_color (snd e) of None \<Rightarrow> [200, 50, 50] | Some c \<Rightarrow> c)))"
proof -
  from assms(1) have "map_of (list_canvases s) (''enemy-preview-'' @ fst e) = None"
    by (simp add: map_of_eq_None_iff)
  then have "map_of (list_canvases s @ [(''enemy-preview-'' @ fst e, next_elem s)])
      (''enemy-preview-'' @ fst e) = Some (next_elem s)"
    by (simp add: map_add_def)
  then show ?thesis using assms(2)
    by (simp add: render_entry_def startEnemyListAnimation_def request_image_def paint_def Let_def)
qed

lemma render_entry_not_found:
  assumes "''enemy-preview-'' @ fst e \<notin> fst ` set (list_canvases s)"
    "attribute_value P (''enemy-preview-'' @ fst e) \<noteq> ''enemy-preview-'' @ fst e"
    "\<not> truthy (e_sprite_path (snd e))"
  shows "render_entry P s e =
     s\<lparr>list_canvases :=
          list_canvases s @ [(attribute_value P (''enemy-preview-'' @ fst e), next_elem s)],
       next_elem := next_elem s + 1\<rparr>"
proof -
  from assms(1) have "map_of (list_canvases s) (''enemy-preview-'' @ fst e) = None"
    by (simp add: map_of_eq_None_iff)
  with assms(2) not_sym [OF assms(2)] assms(3) show ?thesis
    by (simp add: render_entry_def Let_def map_add_def del: map_of_eq_None_iff)
qed

lemma foldl_render_next_elem [simp]:
  "next_elem (foldl (render_entry P) s es) = next_elem s + length es"
  by (induction es arbitrary: s) simp_all

lemma foldl_render_list_canvases:
  "list_canvases (foldl (render_entry P) s es) =
     list_canvases s @
     map (\<lambda>i. (attribute_value P (''enemy-preview-'' @ fst (es ! i)), next_elem s + i))
       [0..<length es]"
proof (induction es rule: rev_induct)
  case Nil
  then show ?case by simp
next
  case (snoc e es)
  then show ?case by (simp add: nth_append)
qed

lemma foldl_render_canvas:
  assumes "distinct (map fst es)" "list_canvases s = []"
    "\<forall>e\<in>set es. attribute_value P (''enemy-preview-'' @ fst e) = ''enemy-preview-'' @ fst e"
  shows "(\<forall>c. next_elem s + length es \<le> c \<longrightarrow>
            canvas (foldl (render_entry P) s es) (ListCanvas c) = canvas s (ListCanvas c)) \<and>
         (\<forall>i<length es.
            canvas (foldl (render_entry P) s es) (ListCanvas (next_elem s + i)) =
              canvas s (ListCanvas (next_elem s + i)) @
              (if truthy (e_sprite_path (snd (es ! i))) then []
               else color_square (case e_color (snd (es ! i)) of None \<Rightarrow> [200, 50, 50] | Some c \<Rightarrow> c)))"
  using assms(1,3)
proof (induction es rule: rev_induct)
  case Nil
  then show ?case by simp
next
  case (snoc e es)
  let ?s' = "foldl (render_entry P) s es"
  from snoc.prems have d: "distinct (map fst es)" and fresh: "fst e \<notin> fst ` set es"
    and rt: "\<forall>e\<in>set es. attribute_value P (''enemy-preview-'' @ fst e) = ''enemy-preview-'' @ fst e"
    and own: "attribute_value P (''enemy-preview-'' @ fst e) = ''enemy-preview-'' @ fst e"
    by auto
  note IH = snoc.IH[OF d rt]
  have "''enemy-preview-'' @ fst e \<notin> fst ` set (list_canvases ?s')"
    using fresh assms(2) rt by (auto simp: foldl_render_list_canvases image_iff)
  note cv = render_entry_canvas[OF this own]
  show ?case
  proof (intro conjI allI impI)
    fix c assume "next_elem s + length (es @ [e]) \<le> c"
    then have "next_elem s + length es \<le> c" "c \<noteq> next_elem s + length es" by simp_all
    with IH show "canvas (foldl (render_entry P) s (es @ [e])) (ListCanvas c) = canvas s (ListCanvas c)"
      by (simp add: cv)
  next
    fix i assume i: "i < length (es @ [e])"
    show "canvas (foldl (render_entry P) s (es @ [e])) (ListCanvas (next_elem s + i)) =
              canvas s (ListCanvas (next_elem s + i)) @
              (if truthy (e_sprite_path (snd ((es @ [e]) ! i))) then []
               else color_square (case e_color (snd ((es @ [e]) ! i)) of None \<Rightarrow> [200, 50, 50] | Some c \<Rightarrow> c))"
    proof (cases "i < length es")
      case True
      with IH show ?thesis by (simp add: cv nth_append)
    next
      case False
      with i have "i = length es" by simp
      with IH show ?thesis by (simp add: cv nth_append)
    qed
  qed
qed

lemma fold_clear_proj [simp]:
  "canvas (fold (\<lambda>anim. clearInterval (snd anim)) as s) = canvas s"
  "next_elem (fold (\<lambda>anim. clearInterval (snd anim)) as s) = next_elem s"
  "enemyTypes (fold (\<lambda>anim. clearInterval (snd anim)) as s) = enemyTypes s"
  by (induction as arbitrary: s) (simp_all add: clearInterval_def)

lemma renderEnemyList_square:
  assumes "distinct (map fst (enemyTypes s))" "i < length (enemyTypes s)"
    "enemyTypes s ! i = (eid, enemy)" "\<not> truthy (e_sprite_path enemy)"
    "\<forall>e\<in>set (enemyTypes s).
       attribute_value P (''enemy-preview-'' @ fst e) = ''enemy-preview-'' @ fst e"
  shows "map_of (list_canvases (renderEnemyList P s)) (''enemy-preview-'' @ eid) = Some (next_elem s + i) \<and>
         canvas (renderEnemyList P s) (ListCanvas (next_elem s + i)) =
           canvas s (ListCanvas (next_elem s + i)) @
           color_square (case e_color enemy of None \<Rightarrow> [200, 50, 50] | Some c \<Rightarrow> c)"
proof -
  let ?s2 = "(fold (\<lambda>anim. clearInterval (snd anim)) (enemyListAnimations s) s)
               \<lparr>enemyListAnimations := [], list_canvases := []\<rparr>"
  have r: "renderEnemyList P s = foldl (render_entry P) ?s2 (enemyTypes s)"
    by (simp add: renderEnemyList_def Let_def)
  have rt: "\<And>j. j < length (enemyTypes s) \<Longrightarrow>
      attribute_value P (''enemy-preview-'' @ fst (enemyTypes s ! j)) =
        ''enemy-preview-'' @ fst (enemyTypes s ! j)"
    using assms(5) by simp
  have lc: "list_canvases (renderEnemyList P s) =
      map (\<lambda>j. (''enemy-preview-'' @ fst (enemyTypes s ! j), next_elem s + j)) [0..<length (enemyTypes s)]"
    using rt by (auto simp: r foldl_render_list_canvases)
  have inj: "\<And>j. j < length (enemyTypes s) \<Longrightarrow> fst (enemyTypes s ! j) = eid \<Longrightarrow> j = i"
    using assms(1,2,3) by (metis distinct_conv_nth fst_conv length_map nth_map)
  have "distinct (map fst (list_canvases (renderEnemyList P s)))"
    unfolding lc using assms(1)
    by (auto simp: distinct_map inj_on_def distinct_conv_nth comp_def)
  moreover have "(''enemy-preview-'' @ eid, next_elem s + i) \<in> set (list_canvases (renderEnemyList P s))"
    unfolding lc using assms(2,3) by (auto simp: image_iff intro!: bexI[of _ i])
  ultimately have m: "map_of (list_canvases (renderEnemyList P s)) (''enemy-preview-'' @ eid) = Some (next_elem s + i)"
    by (rule map_of_is_SomeI)
  from foldl_render_canvas[of "enemyTypes s" ?s2 P] assms
  have "canvas (renderEnemyList P s) (ListCanvas (next_elem s + i)) =
           canvas s (ListCanvas (next_elem s + i)) @
           color_square (case e_color enemy of None \<Rightarrow> [200, 50, 50] | Some c \<Rightarrow> c)"
    by (simp add: r)
  with m show ?thesis by simp
qed

lemma image_failed_square:
  assumes "map_of (loads s) n = Some (ListLoad eid canvasId color img)"
  shows "(map_of (list_canvases s) canvasId = Some c \<longrightarrow>
            canvas (image_failed n s) (ListCanvas c) = canvas s (ListCanvas c) @ color_square color) \<and>
         (map_of (list_canvases s) canvasId = None \<longrightarrow>
            image_failed n s = s\<lparr>loads := filter (\<lambda>p. fst p \<noteq> n) (loads s)\<rparr>)"
  using assms by (simp add: image_failed_def Let_def paint_def)

lemma render_entry_load:
  "truthy (e_sprite_path enemy) \<Longrightarrow>
   loads (render_entry P s (eid, enemy)) =
     loads s @ [(next_load s, ListLoad eid (''enemy-preview-'' @ eid)
        (case e_color enemy of None \<Rightarrow> [200, 50, 50] | Some c \<Rightarrow> c)
        (''/api/sprites/'' @ pop (split_str (or_str (e_sprite_path enemy) []) CHR ''/'')))]"
  by (simp add: render_entry_def startEnemyListAnimation_def request_image_def Let_def)

text \<open>The decimal text of a number reads back as the number.\<close>

lemma nat_of_digits_append:
  "nat_of_digits acc (xs @ ys) =
     (case nat_of_digits acc xs of None \<Rightarrow> None | Some a \<Rightarrow> nat_of_digits a ys)"
  by (induction xs arbitrary: acc) (simp_all add: Let_def)

lemma nat_of_digits_digit_char:
  "d < 10 \<Longrightarrow> nat_of_digits acc [digit_char d] = Some (10 * acc + d)"
  by (simp add: digit_char_def Let_def)

lemma nat_of_digits_digits: "nat_of_digits 0 (digits n) = Some n"
proof (induction n rule: digits.induct)
  case (1 n)
  show ?case
  proof (cases "n < 10")
    case True
    then show ?thesis
      by (subst digits.simps) (simp add: nat_of_digits_digit_char del: digits.simps nat_of_digits.simps)
  next
    case False
    with 1 have "nat_of_digits 0 (digits (n div 10)) = Some (n div 10)" by simp
    with False show ?thesis
      by (subst digits.simps)
        (simp add: nat_of_digits_append nat_of_digits_digit_char
           del: digits.simps nat_of_digits.simps)
  qed
qed

lemma color_square_rgb:
  "color_square [r, g, b] =
     [FillStyle (''rgb('' @ show_int r @ '','' @ show_int g @ '','' @ show_int b @ '')''),
      FillRect 12 12 40 40]"
  by (simp add: color_square_def)

text \<open>
  C6 does not hold of the script for every entry. What does hold: when every entry is
  plain, its canvas id is read back unchanged from the markup and the ids differ, every
  entry without a sprite path gets, on its own 64px canvas, the fill style \<^verbatim>\<open>rgb(...)\<close> of the record's
  colour (of 200, 50, 50 when the record has none) and a filled rectangle at (12, 12) of
  size 40 x 40, and nothing else; an entry with a sprite path requests its image with that
  same colour kept for the error callback, which draws the same square on the canvas
  found under the entry's canvas id; and no step of either path can fail, the lookup
  being guarded.

  But the canvas id is interpolated unescaped into the markup. For an id such as
  \<^verbatim>\<open>a&amp;b\<close> or \<^verbatim>\<open>a"b\<close> the new canvas carries another id (\<^verbatim>\<open>enemy-preview-a&b\<close>,
  \<^verbatim>\<open>enemy-preview-a\<close>), the lookup under the script's own canvas id finds nothing, and
  the guard skips the drawing: the thumbnail stays blank, without a sprite and after a
  failed load alike. With the entries \<^verbatim>\<open>a"b\<close> and \<^verbatim>\<open>a\<close> in that order, the square of
  \<^verbatim>\<open>a\<close> is drawn on the canvas of \<^verbatim>\<open>a"b\<close>, the first one carrying the id
  \<^verbatim>\<open>enemy-preview-a\<close>, and the canvas of \<^verbatim>\<open>a\<close> stays blank.
\<close>

theorem thumbnail_square_needs_plain_id:
  "(distinct (map fst (enemyTypes s)) \<and> i < length (enemyTypes s) \<and>
    enemyTypes s ! i = (eid, enemy) \<and> \<not> truthy (e_sprite_path enemy) \<and>
    (\<forall>e\<in>set (enemyTypes s).
       plain_entry e \<and>
       attribute_value P (''enemy-preview-'' @ fst e) = ''enemy-preview-'' @ fst e) \<longrightarrow>
      map_of (list_canvases (renderEnemyList P s)) (''enemy-preview-'' @ eid) = Some (next_elem s + i) \<and>
      canvas (renderEnemyList P s) (ListCanvas (next_elem s + i)) =
        canvas s (ListCanvas (next_elem s + i)) @
        color_square (case e_color enemy of None \<Rightarrow> [200, 50, 50] | Some c \<Rightarrow> c)) \<and>
   (truthy (e_sprite_path enemy) \<longrightarrow>
      loads (render_entry P s (eid, enemy)) =
        loads s @
        [(next_load s,
          ListLoad eid (''enemy-preview-'' @ eid)
            (case e_color enemy of None \<Rightarrow> [200, 50, 50] | Some c \<Rightarrow> c)
            (''/api/sprites/'' @ pop (split_str (or_str (e_sprite_path enemy) []) CHR ''/'')))]) \<and>
   (map_of (loads s) n = Some (ListLoad eid canvasId color img) \<and>
    map_of (list_canvases s) canvasId = Some c \<longrightarrow>
      canvas (image_failed n s) (ListCanvas c) = canvas s (ListCanvas c) @ color_square color) \<and>
   (map_of (loads s) n = Some (ListLoad eid canvasId color img) \<and>
    map_of (list_canvases s) canvasId = None \<longrightarrow>
      image_failed n s = s\<lparr>loads := filter (\<lambda>p. fst p \<noteq> n) (loads s)\<rparr>) \<and>
   (\<not> truthy (e_sprite_path enemy) \<and> plain_entry (eid, enemy) \<and>
    ''enemy-preview-'' @ eid \<notin> fst ` set (list_canvases s) \<and>
    attribute_value P (''enemy-preview-'' @ eid) \<noteq> ''enemy-preview-'' @ eid \<longrightarrow>
      render_entry P s (eid, enemy) =
        s\<lparr>list_canvases :=
             list_canvases s @ [(attribute_value P (''enemy-preview-'' @ eid), next_elem s)],
          next_elem := next_elem s + 1\<rparr>) \<and>
   color_square [r, g, b] =
     [FillStyle (''rgb('' @ show_int r @ '','' @ show_int g @ '','' @ show_int b @ '')''),
      FillRect 12 12 40 40] \<and>
   nat_of_digits 0 (show_int (int k)) = Some k \<and>
   color_square [200, 50, 50] = [FillStyle ''rgb(200,50,50)'', FillRect 12 12 40 40] \<and>
   color_square [0, 128, 255] = [FillStyle ''rgb(0,128,255)'', FillRect 12 12 40 40] \<and>
   color_square [255, 0, 7, 1] = [FillStyle ''rgb(255,0,7,1)'', FillRect 12 12 40 40] \<and>
   color_square [90] = [FillStyle ''rgb(90)'', FillRect 12 12 40 40] \<and>
   color_square [] = [FillStyle ''rgb()'', FillRect 12 12 40 40] \<and>
   color_square [-1, 10, 100] = [FillStyle ''rgb(-1,10,100)'', FillRect 12 12 40 40] \<and>
   e_sprite_path blob = None \<and>
   plain_entry (''a&amp;b'', blob) \<and>
   plain_entry (''a'' @ [CHR 0x22] @ ''b'', blob) \<and> plain_entry (''a'', slime) \<and>
   plain_entry (''a&amp;b'', rat) \<and>
   list_canvases (run P0 [DataLoaded (Some [(''a&amp;b'', blob)])] init) =
     [(''enemy-preview-a&b'', 0)] \<and>
   canvas (run P0 [DataLoaded (Some [(''a&amp;b'', blob)])] init) (ListCanvas 0) = [] \<and>
   list_canvases (run P0 [DataLoaded (Some [(''a'' @ [CHR 0x22] @ ''b'', blob), (''a'', slime)])] init) =
     [(''enemy-preview-a'', 0), (''enemy-preview-a'', 1)] \<and>
   canvas (run P0 [DataLoaded (Some [(''a'' @ [CHR 0x22] @ ''b'', blob), (''a'', slime)])] init)
       (ListCanvas 0) =
     [FillStyle ''rgb(0,128,255)'', FillRect 12 12 40 40] \<and>
   canvas (run P0 [DataLoaded (Some [(''a'' @ [CHR 0x22] @ ''b'', blob), (''a'', slime)])] init)
       (ListCanvas 1) = [] \<and>
   map_of (loads (run P0 [DataLoaded (Some [(''a&amp;b'', rat)])] init)) 0 =
     Some (ListLoad ''a&amp;b'' ''enemy-preview-a&amp;b'' [200, 50, 50] ''/api/sprites/rat.png'') \<and>
   canvas (run P0 [DataLoaded (Some [(''a&amp;b'', rat)]), ImageFailed 0] init) (ListCanvas 0) = []"
proof -
  have c1: "distinct (map fst (enemyTypes s)) \<and> i < length (enemyTypes s) \<and>
    enemyTypes s ! i = (eid, enemy) \<and> \<not> truthy (e_sprite_path enemy) \<and>
    (\<forall>e\<in>set (enemyTypes s).
       plain_entry e \<and>
       attribute_value P (''enemy-preview-'' @ fst e) = ''enemy-preview-'' @ fst e) \<longrightarrow>
      map_of (list_canvases (renderEnemyList P s)) (''enemy-preview-'' @ eid) = Some (next_elem s + i) \<and>
      canvas (renderEnemyList P s) (ListCanvas (next_elem s + i)) =
        canvas s (ListCanvas (next_elem s + i)) @
        color_square (case e_color enemy of None \<Rightarrow> [200, 50, 50] | Some c \<Rightarrow> c)"
    using renderEnemyList_square [of s i eid enemy P] by blast
  have c2: "truthy (e_sprite_path enemy) \<longrightarrow>
      loads (render_entry P s (eid, enemy)) =
        loads s @
        [(next_load s,
          ListLoad eid (''enemy-preview-'' @ eid)
            (case e_color enemy of None \<Rightarrow> [200, 50, 50] | Some c \<Rightarrow> c)
            (''/api/sprites/'' @ pop (split_str (or_str (e_sprite_path enemy) []) CHR ''/'')))]"
    using render_entry_load [of enemy P s eid] by blast
  have c3: "map_of (loads s) n = Some (ListLoad eid canvasId color img) \<and>
    map_of (list_canvases s) canvasId = Some c \<longrightarrow>
      canvas (image_failed n s) (ListCanvas c) = canvas s (ListCanvas c) @ color_square color"
    using image_failed_square [of s n eid canvasId color img c] by blast
  have c4: "map_of (loads s) n = Some (ListLoad eid canvasId color img) \<and>
    map_of (list_canvases s) canvasId = None \<longrightarrow>
      image_failed n s = s\<lparr>loads := filter (\<lambda>p. fst p \<noteq> n) (loads s)\<rparr>"
    using image_failed_square [of s n eid canvasId color img c] by blast
  have c5: "\<not> truthy (e_sprite_path enemy) \<and> plain_entry (eid, enemy) \<and>
    ''enemy-preview-'' @ eid \<notin> fst ` set (list_canvases s) \<and>
    attribute_value P (''enemy-preview-'' @ eid) \<noteq> ''enemy-preview-'' @ eid \<longrightarrow>
      render_entry P s (eid, enemy) =
        s\<lparr>list_canvases :=
             list_canvases s @ [(attribute_value P (''enemy-preview-'' @ eid), next_elem s)],
          next_elem := next_elem s + 1\<rparr>"
    using render_entry_not_found [of "(eid, enemy)" s P] by simp
  have c6: "color_square [r, g, b] =
     [FillStyle (''rgb('' @ show_int r @ '','' @ show_int g @ '','' @ show_int b @ '')''),
      FillRect 12 12 40 40]"
    by (rule color_square_rgb)
  have c7: "nat_of_digits 0 (show_int (int k)) = Some k"
    by (simp add: show_int_def nat_of_digits_digits del: digits.simps)
  have c8: "color_square [200, 50, 50] = [FillStyle ''rgb(200,50,50)'', FillRect 12 12 40 40] \<and>
   color_square [0, 128, 255] = [FillStyle ''rgb(0,128,255)'', FillRect 12 12 40 40] \<and>
   color_square [255, 0, 7, 1] = [FillStyle ''rgb(255,0,7,1)'', FillRect 12 12 40 40] \<and>
   color_square [90] = [FillStyle ''rgb(90)'', FillRect 12 12 40 40] \<and>
   color_square [] = [FillStyle ''rgb()'', FillRect 12 12 40 40] \<and>
   color_square [-1, 10, 100] = [FillStyle ''rgb(-1,10,100)'', FillRect 12 12 40 40] \<and>
   e_sprite_path blob = None \<and>
   plain_entry (''a&amp;b'', blob) \<and>
   plain_entry (''a'' @ [CHR 0x22] @ ''b'', blob) \<and> plain_entry (''a'', slime) \<and>
   plain_entry (''a&amp;b'', rat)"
    by code_simp
  have c9: "list_canvases (run P0 [DataLoaded (Some [(''a&amp;b'', blob)])] init) =
     [(''enemy-preview-a&b'', 0)] \<and>
   canvas (run P0 [DataLoaded (Some [(''a&amp;b'', blob)])] init) (ListCanvas 0) = []"
    by code_simp
  have c10: "list_canvases (run P0 [DataLoaded (Some [(''a'' @ [CHR 0x22] @ ''b'', blob), (''a'', slime)])] init) =
     [(''enemy-preview-a'', 0), (''enemy-preview-a'', 1)] \<and>
   canvas (run P0 [DataLoaded (Some [(''a'' @ [CHR 0x22] @ ''b'', blob), (''a'', slime)])] init)
       (ListCanvas 0) =
     [FillStyle ''rgb(0,128,255)'', FillRect 12 12 40 40] \<and>
   canvas (run P0 [DataLoaded (Some [(''a'' @ [CHR 0x22] @ ''b'', blob), (''a'', slime)])] init)
       (ListCanvas 1) = []"
    by code_simp
  have c11: "map_of (loads (run P0 [DataLoaded (Some [(''a&amp;b'', rat)])] init)) 0 =
     Some (ListLoad ''a&amp;b'' ''enemy-preview-a&amp;b'' [200, 50, 50] ''/api/sprites/rat.png'') \<and>
   canvas (run P0 [DataLoaded (Some [(''a&amp;b'', rat)]), ImageFailed 0] init) (ListCanvas 0) = []"
    by code_simp
  from c1 c2 c3 c4 c5 c6 c7 c8 c9 c10 c11 show ?thesis by blast
qed

theorem thumbnail_square_needs_plain_id_witness:
  "enemyTypes two_enemies ! 0 = (''blob'', blob) \<and>
   \<not> truthy (e_sprite_path blob) \<and>
   plain_entry (''blob'', blob) \<and> plain_entry (''rat'', rat) \<and>
   attribute_value P0 ''enemy-preview-blob'' = ''enemy-preview-blob'' \<and>
   attribute_value P0 ''enemy-preview-rat'' = ''enemy-preview-rat'' \<and>
   canvas (renderEnemyList P0 two_enemies) (ListCanvas 0) =
     [FillStyle ''rgb(200,50,50)'', FillRect 12 12 40 40] \<and>
   canvas (renderEnemyList P0 (init\<lparr>enemyTypes := [(''slime'', slime)]\<rparr>)) (ListCanvas 0) =
     [FillStyle ''rgb(0,128,255)'', FillRect 12 12 40 40] \<and>
   map_of (loads (renderEnemyList P0 two_enemies)) 0 =
     Some (ListLoad ''rat'' ''enemy-preview-rat'' [200, 50, 50] ''/api/sprites/rat.png'') \<and>
   canvas (image_failed 0 (renderEnemyList P0 two_enemies)) (ListCanvas 1) =
     [FillStyle ''rgb(200,50,50)'', FillRect 12 12 40 40] \<and>
   loads (render_entry P0 init (''rat'', rat)) =
     [(0, ListLoad ''rat'' ''enemy-preview-rat'' [200, 50, 50] ''/api/sprites/rat.png'')] \<and>
   image_failed 0 (render_entry P0 init (''rat'', rat)\<lparr>list_canvases := []\<rparr>) =
     render_entry P0 init (''rat'', rat)\<lparr>list_canvases := [], loads := []\<rparr> \<and>
   attribute_value P0 ''enemy-preview-a&amp;b'' = ''enemy-preview-a&b'' \<and>
   canvas (render_entry P0 init (''a&amp;b'', blob)) (ListCanvas 0) = []"
proof -
  have e: "distinct (map fst (enemyTypes two_enemies))" "0 < length (enemyTypes two_enemies)"
    "enemyTypes two_enemies ! 0 = (''blob'', blob)" "next_elem two_enemies = 0"
    "canvas two_enemies (ListCanvas 0) = []"
    by (simp_all add: two_enemies_def init_def)
  have av: "attribute_value P0 ''enemy-preview-blob'' = ''enemy-preview-blob''"
    "attribute_value P0 ''enemy-preview-rat'' = ''enemy-preview-rat''"
    "attribute_value P0 ''enemy-preview-slime'' = ''enemy-preview-slime''"
    "attribute_value P0 ''enemy-preview-a&amp;b'' = ''enemy-preview-a&b''"
    by code_simp+
  have pl: "plain_entry (''blob'', blob)" "plain_entry (''rat'', rat)"
    "plain_entry (''slime'', slime)" "plain_entry (''a&amp;b'', blob)"
    by code_simp+
  have rt: "\<forall>e\<in>set (enemyTypes two_enemies).
       plain_entry e \<and>
       attribute_value P0 (''enemy-preview-'' @ fst e) = ''enemy-preview-'' @ fst e"
    using av pl by (simp add: two_enemies_def)
  have b: "\<not> truthy (e_sprite_path blob)" "e_color blob = None"
    by (simp_all add: blob_def truthy_def)
  have sl: "\<not> truthy (e_sprite_path slime)" "e_color slime = Some [0, 128, 255]"
    by (simp_all add: slime_def blob_def truthy_def)
  have l: "map_of (loads (renderEnemyList P0 two_enemies)) 0 =
     Some (ListLoad ''rat'' ''enemy-preview-rat'' [200, 50, 50] ''/api/sprites/rat.png'')"
    by code_simp
  have c: "map_of (list_canvases (renderEnemyList P0 two_enemies)) ''enemy-preview-rat'' = Some 1"
    by code_simp
  have k: "canvas (renderEnemyList P0 two_enemies) (ListCanvas 1) = []"
    by code_simp
  have t: "truthy (e_sprite_path rat)" "e_color rat = None"
    "pop (split_str (or_str (e_sprite_path rat) []) CHR ''/'') = ''rat.png''"
    by code_simp+
  have i: "loads init = []" "next_load init = 0" "list_canvases init = []" "next_elem init = 0"
    "canvas init (ListCanvas 0) = []"
    by (simp_all add: init_def)
  have v: "loads (render_entry P0 init (''rat'', rat)\<lparr>list_canvases := []\<rparr>) =
      [(0, ListLoad ''rat'' ''enemy-preview-rat'' [200, 50, 50] ''/api/sprites/rat.png'')]"
    by code_simp
  have r1: "canvas (renderEnemyList P0 two_enemies) (ListCanvas 0) =
     [FillStyle ''rgb(200,50,50)'', FillRect 12 12 40 40]"
    using thumbnail_square_needs_plain_id
         [where s = two_enemies and i = 0 and eid = "''blob''" and enemy = blob and P = P0
            and r = 0 and g = 0 and b = 0 and k = 0]
      e b rt by simp
  have r2: "canvas (renderEnemyList P0 (init\<lparr>enemyTypes := [(''slime'', slime)]\<rparr>)) (ListCanvas 0) =
     [FillStyle ''rgb(0,128,255)'', FillRect 12 12 40 40]"
    using thumbnail_square_needs_plain_id
         [where s = "init\<lparr>enemyTypes := [(''slime'', slime)]\<rparr>" and i = 0 and eid = "''slime''"
            and enemy = slime and P = P0 and r = 0 and g = 0 and b = 0 and k = 0]
      sl av pl i by simp
  have r3: "canvas (image_failed 0 (renderEnemyList P0 two_enemies)) (ListCanvas 1) =
     [FillStyle ''rgb(200,50,50)'', FillRect 12 12 40 40]"
    using thumbnail_square_needs_plain_id
         [where s = "renderEnemyList P0 two_enemies" and n = 0 and eid = "''rat''"
            and canvasId = "''enemy-preview-rat''" and color = "[200, 50, 50]"
            and img = "''/api/sprites/rat.png''" and c = 1
            and r = 0 and g = 0 and b = 0 and k = 0]
      l c k by simp
  have r4: "loads (render_entry P0 init (''rat'', rat)) =
     [(0, ListLoad ''rat'' ''enemy-preview-rat'' [200, 50, 50] ''/api/sprites/rat.png'')]"
    using thumbnail_square_needs_plain_id [where s = init and eid = "''rat''" and enemy = rat and P = P0
            and r = 0 and g = 0 and b = 0 and k = 0]
      t i by simp
  have r5: "image_failed 0 (render_entry P0 init (''rat'', rat)\<lparr>list_canvases := []\<rparr>) =
     render_entry P0 init (''rat'', rat)\<lparr>list_canvases := [], loads := []\<rparr>"
    using thumbnail_square_needs_plain_id
         [where s = "render_entry P0 init (''rat'', rat)\<lparr>list_canvases := []\<rparr>" and n = 0
            and eid = "''rat''" and canvasId = "''enemy-preview-rat''"
            and color = "[200, 50, 50]" and img = "''/api/sprites/rat.png''"
            and r = 0 and g = 0 and b = 0 and k = 0]
      v by simp
  have r6: "canvas (render_entry P0 init (''a&amp;b'', blob)) (ListCanvas 0) = []"
    using thumbnail_square_needs_plain_id
         [where s = init and eid = "''a&amp;b''" and enemy = blob and P = P0
            and r = 0 and g = 0 and b = 0 and k = 0]
      b av pl i by simp
  from e(3) b(1) av pl l r1 r2 r3 r4 r5 r6 show ?thesis by simp
qed

section \<open>Starting and stopping tickers\<close>

text \<open>
  What the stop paths do achieve: rendering the list stops every thumbnail ticker whose
  handle \<^verbatim>\<open>enemyListAnimations\<close> holds, hiding the sidebar stops the sidebar ticker, and
  restarting the editor preview stops the ticker whose handle
  \<^verbatim>\<open>editorPreviewAnimation\<close> holds. \<^verbatim>\<open>hideEditor\<close> stops nothing.
\<close>

lemma timers_fold_clear:
  "timers (fold (\<lambda>anim. clearInterval (snd anim)) as s) =
     filter (\<lambda>p. fst p \<notin> snd ` set as) (timers s)"
proof (induction as arbitrary: s)
  case Nil
  then show ?case by simp
next
  case (Cons a as)
  show ?case
    by (simp add: Cons.IH) (auto simp: clearInterval_def intro!: filter_cong)
qed

lemma timers_render_entry [simp]: "timers (render_entry P s e) = timers s"
  by (simp add: render_entry_def startEnemyListAnimation_def request_image_def paint_def Let_def
      split: option.splits)

lemma timers_foldl_render [simp]: "timers (foldl (render_entry P) s es) = timers s"
  by (induction es arbitrary: s) simp_all

lemma renderEnemyList_timers:
  "timers (renderEnemyList P s) = filter (\<lambda>p. fst p \<notin> snd ` set (enemyListAnimations s)) (timers s)"
  by (simp add: renderEnemyList_def Let_def timers_fold_clear)

lemma ela_render_entry [simp]: "enemyListAnimations (render_entry P s e) = enemyListAnimations s"
  by (simp add: render_entry_def startEnemyListAnimation_def request_image_def paint_def Let_def
      split: option.splits)

lemma ela_foldl_render [simp]: "enemyListAnimations (foldl (render_entry P) s es) = enemyListAnimations s"
  by (induction es arbitrary: s) simp_all

lemma renderEnemyList_stops_kept:
  "enemyListAnimations (renderEnemyList P s) = [] \<and>
   (\<forall>t \<in> snd ` set (enemyListAnimations s). t \<notin> fst ` set (timers (renderEnemyList P s)))"
proof
  show "enemyListAnimations (renderEnemyList P s) = []"
    by (simp add: renderEnemyList_def Let_def)
  show "\<forall>t \<in> snd ` set (enemyListAnimations s). t \<notin> fst ` set (timers (renderEnemyList P s))"
    by (force simp: renderEnemyList_timers)
qed

lemma stopAnimation_stops:
  "animationInterval (stopAnimation s) = None \<and>
   (animationInterval s = Some t \<longrightarrow> t \<notin> fst ` set (timers (stopAnimation s)))"
  by (auto simp: stopAnimation_def clearInterval_def split: option.splits)

lemma hide_sidebar_stops:
  "previewSidebarVisible s \<Longrightarrow>
   sidebar_hidden (togglePreviewPanel P s) \<and> animationInterval (togglePreviewPanel P s) = None \<and>
   (animationInterval s = Some t \<longrightarrow> t \<notin> fst ` set (timers (togglePreviewPanel P s)))"
  by (auto simp: togglePreviewPanel_def Let_def stopAnimation_def clearInterval_def split: option.splits)

lemma restart_editor_stops_previous:
  "editorPreviewAnimation s = Some t \<Longrightarrow> t < next_timer s \<Longrightarrow>
   t \<notin> fst ` set (timers (startEditorPreview s))"
  by (auto simp: startEditorPreview_def stopEditorPreview_def clearInterval_def setInterval_def
      paint_def Let_def)

lemma hideEditor_keeps_ticker:
  "timers (hideEditor s) = timers s \<and> editorPreviewAnimation (hideEditor s) = editorPreviewAnimation s \<and>
   editor_hidden (hideEditor s)"
  by (simp add: hideEditor_def)

text \<open>
  A lost ticker stays lost and live whatever happens next: fresh handles are larger, and
  the stop paths only clear handles they read from the three variables.
\<close>

lemma lost_upd [simp]:
  "lost_ticker t (enemyTypes_update f1 s) = lost_ticker t s"
  "lost_ticker t (currentEnemyId_update f2 s) = lost_ticker t s"
  "lost_ticker t (currentSpriteImage_update f3 s) = lost_ticker t s"
  "lost_ticker t (currentWeaponImage_update f3 s) = lost_ticker t s"
  "lost_ticker t (playerSpriteImage_update f3 s) = lost_ticker t s"
  "lost_ticker t (animationFrame_update f4 s) = lost_ticker t s"
  "lost_ticker t (animationDirection_update f4 s) = lost_ticker t s"
  "lost_ticker t (currentPreviewScale_update f5 s) = lost_ticker t s"
  "lost_ticker t (currentWeaponOffsetX_update f6 s) = lost_ticker t s"
  "lost_ticker t (currentWeaponOffsetY_update f6 s) = lost_ticker t s"
  "lost_ticker t (previewSidebarVisible_update f7 s) = lost_ticker t s"
  "lost_ticker t (form_update f9 s) = lost_ticker t s"
  "lost_ticker t (editor_hidden_update f7 s) = lost_ticker t s"
  "lost_ticker t (welcome_hidden_update f7 s) = lost_ticker t s"
  "lost_ticker t (sidebar_hidden_update f7 s) = lost_ticker t s"
  "lost_ticker t (list_canvases_update f8 s) = lost_ticker t s"
  "lost_ticker t (next_elem_update f10 s) = lost_ticker t s"
  "lost_ticker t (has_enemy_canvas_update f7 s) = lost_ticker t s"
  "lost_ticker t (has_player_canvas_update f7 s) = lost_ticker t s"
  "lost_ticker t (has_weapon_canvas_update f7 s) = lost_ticker t s"
  "lost_ticker t (has_editor_canvas_update f7 s) = lost_ticker t s"
  "lost_ticker t (canvas_update f11 s) = lost_ticker t s"
  "lost_ticker t (loads_update f12 s) = lost_ticker t s"
  "lost_ticker t (next_load_update f10 s) = lost_ticker t s"
  "lost_ticker t (timeouts_update f10 s) = lost_ticker t s"
  by (simp_all add: lost_ticker_def)

lemma lost_paint [simp]: "lost_ticker t (paint c ops s) = lost_ticker t s"
  by (simp add: paint_def)

lemma lost_request_image [simp]: "lost_ticker t (request_image ld s) = lost_ticker t s"
  by (simp add: request_image_def)

lemma lost_draw_sidebar [simp]: "lost_ticker t (draw_sidebar w s) = lost_ticker t s"
  by (simp add: draw_sidebar_def Let_def)

lemma lost_stopAnimation [simp]: "lost_ticker t s \<Longrightarrow> lost_ticker t (stopAnimation s)"
  by (auto simp: stopAnimation_def clearInterval_def lost_ticker_def split: option.splits)

lemma lost_startAnimation [simp]: "lost_ticker t s \<Longrightarrow> lost_ticker t (startAnimation s)"
proof -
  assume "lost_ticker t s"
  then have a: "lost_ticker t (stopAnimation s)" by simp
  have "next_timer (draw_sidebar w (stopAnimation s)) = next_timer (stopAnimation s)" for w
    by (simp add: draw_sidebar_def paint_def Let_def)
  with a show ?thesis
    by (auto simp: startAnimation_def Let_def setInterval_def lost_ticker_def draw_sidebar_def paint_def)
qed

lemma lost_stopEditorPreview [simp]: "lost_ticker t s \<Longrightarrow> lost_ticker t (stopEditorPreview s)"
  by (auto simp: stopEditorPreview_def clearInterval_def lost_ticker_def split: option.splits)

lemma lost_startEditorPreview [simp]: "lost_ticker t s \<Longrightarrow> lost_ticker t (startEditorPreview s)"
proof -
  assume "lost_ticker t s"
  then have a: "lost_ticker t (stopEditorPreview s)" by simp
  then show ?thesis
    by (auto simp: startEditorPreview_def Let_def setInterval_def lost_ticker_def paint_def)
qed

lemma lost_render_entry [simp]: "lost_ticker t (render_entry P s e) = lost_ticker t s"
  by (simp add: render_entry_def startEnemyListAnimation_def Let_def split: option.splits)

lemma lost_foldl_render [simp]: "lost_ticker t (foldl (render_entry P) s es) = lost_ticker t s"
  by (induction es arbitrary: s) simp_all

lemma fold_clear_proj2 [simp]:
  "next_timer (fold (\<lambda>anim. clearInterval (snd anim)) as s) = next_timer s"
  "animationInterval (fold (\<lambda>anim. clearInterval (snd anim)) as s) = animationInterval s"
  "editorPreviewAnimation (fold (\<lambda>anim. clearInterval (snd anim)) as s) = editorPreviewAnimation s"
  by (induction as arbitrary: s) (simp_all add: clearInterval_def)

lemma lost_renderEnemyList [simp]: "lost_ticker t s \<Longrightarrow> lost_ticker t (renderEnemyList P s)"
  by (simp add: renderEnemyList_def Let_def) (auto simp: lost_ticker_def timers_fold_clear)

lemma lost_loadData [simp]: "lost_ticker t s \<Longrightarrow> lost_ticker t (loadData P r s)"
  by (simp add: loadData_def updateSpriteSelects_def split: option.splits)

lemma lost_updateAttackTypeUI [simp]: "lost_ticker t (updateAttackTypeUI P s) = lost_ticker t s"
  by (simp add: updateAttackTypeUI_def Let_def)

lemma lost_loadWeaponSprite [simp]: "lost_ticker t (loadWeaponSprite p s) = lost_ticker t s"
  by (simp add: loadWeaponSprite_def Let_def)

lemma lost_updateWeaponOffsetUI [simp]: "lost_ticker t (updateWeaponOffsetUI s) = lost_ticker t s"
  by (simp add: updateWeaponOffsetUI_def Let_def)

lemma lost_misc [simp]:
  "lost_ticker t (showEditor s) = lost_ticker t s"
  "lost_ticker t (hideEditor s) = lost_ticker t s"
  "lost_ticker t (updateColorPreview s) = lost_ticker t s"
  "lost_ticker t (updatePreviewScale x s) = lost_ticker t s"
  "lost_ticker t (updateWeaponOffset P s) = lost_ticker t s"
  "lost_ticker t (previewSprite fn s) = lost_ticker t s"
  "lost_ticker t (loadPlayerSprite s) = lost_ticker t s"
  "lost_ticker t (adjustWeaponOffset dx dy s) = lost_ticker t s"
  "lost_ticker t (applyWeaponOffsetToForm s) = lost_ticker t s"
  "lost_ticker t (on_preview_scale_input x s) = lost_ticker t s"
  "lost_ticker t (prevDirection s) = lost_ticker t s"
  "lost_ticker t (nextDirection s) = lost_ticker t s"
  "lost_ticker t (sidebar_tick s) = lost_ticker t s"
  by (simp_all add: showEditor_def hideEditor_def updateColorPreview_def updatePreviewScale_def
      updateWeaponOffset_def previewSprite_def loadPlayerSprite_def adjustWeaponOffset_def
      applyWeaponOffsetToForm_def on_preview_scale_input_def prevDirection_def nextDirection_def
      sidebar_tick_def)

lemma lost_createNewEnemy [simp]: "lost_ticker t s \<Longrightarrow> lost_ticker t (createNewEnemy P s)"
  by (simp add: createNewEnemy_def Let_def)

lemma lost_selectEnemy [simp]: "lost_ticker t s \<Longrightarrow> lost_ticker t (selectEnemy P eid s)"
  by (simp add: selectEnemy_def Let_def split: option.splits)

lemma lost_saveEnemy [simp]: "lost_ticker t s \<Longrightarrow> lost_ticker t (saveEnemy P r s)"
  by (simp add: saveEnemy_def Let_def split: response.splits)

lemma lost_deleteEnemy [simp]: "lost_ticker t s \<Longrightarrow> lost_ticker t (deleteEnemy P b r s)"
  by (simp add: deleteEnemy_def Let_def split: response.splits)

lemma lost_cancelEdit [simp]: "lost_ticker t s \<Longrightarrow> lost_ticker t (cancelEdit P s)"
  by (simp add: cancelEdit_def)

lemma lost_loadCurrentSprites [simp]: "lost_ticker t (loadCurrentSprites P s) = lost_ticker t s"
  by (simp add: loadCurrentSprites_def Let_def)

lemma lost_togglePreviewPanel [simp]: "lost_ticker t s \<Longrightarrow> lost_ticker t (togglePreviewPanel P s)"
  by (simp add: togglePreviewPanel_def Let_def)

lemma lost_deleteSprite [simp]: "lost_ticker t s \<Longrightarrow> lost_ticker t (deleteSprite P b r s)"
  by (simp add: deleteSprite_def Let_def split: response.splits)

lemma lost_listeners [simp]:
  "lost_ticker t s \<Longrightarrow> lost_ticker t (on_sprite_path_change v s)"
  "lost_ticker t s \<Longrightarrow> lost_ticker t (on_sprite_scale_change P v s)"
  "lost_ticker t s \<Longrightarrow> lost_ticker t (on_attack_type_change P a s)"
  "lost_ticker t s \<Longrightarrow> lost_ticker t (on_weapon_path_change v s)"
  "lost_ticker t s \<Longrightarrow> lost_ticker t (on_weapon_offset_x_input P v s)"
  "lost_ticker t s \<Longrightarrow> lost_ticker t (on_weapon_offset_y_input P v s)"
  by (simp_all add: on_sprite_path_change_def on_sprite_scale_change_def on_attack_type_change_def
      on_weapon_path_change_def on_weapon_offset_x_input_def on_weapon_offset_y_input_def Let_def)

lemma fst_map_upd: "map fst (map (\<lambda>p. if fst p = t then (t, x) else p) ts) = map fst ts"
  by (induction ts) auto

lemma lost_timers_upd:
  "lost_ticker t s \<Longrightarrow> map fst ts = map fst (timers s) \<Longrightarrow> lost_ticker t (s\<lparr>timers := ts\<rparr>)"
  by (simp add: lost_ticker_def)

lemma lost_timer_fired [simp]: "lost_ticker t s \<Longrightarrow> lost_ticker t (timer_fired u s)"
  by (simp add: timer_fired_def Let_def lost_timers_upd fst_map_upd
      split: option.splits ticker.splits)

lemma lost_timeout_fired [simp]: "lost_ticker t s \<Longrightarrow> lost_ticker t (timeout_fired s)"
  by (simp add: timeout_fired_def)

lemma snd_assign: "set (map snd (assign k v xs)) \<subseteq> insert v (set (map snd xs))"
  by (induction xs) auto

lemma lost_image_loaded [simp]: "lost_ticker t s \<Longrightarrow> lost_ticker t (image_loaded n s)"
proof -
  assume a: "lost_ticker t s"
  have k: "t \<notin> set (map snd (assign eid (next_timer s) (enemyListAnimations s)))" for eid
    using a snd_assign[of eid "next_timer s" "enemyListAnimations s"]
    by (auto simp: lost_ticker_def)
  show ?thesis
    using a k
    by (auto simp: image_loaded_def Let_def setInterval_def paint_def lost_ticker_def
        split: option.splits load.splits)
qed

lemma lost_image_failed [simp]: "lost_ticker t s \<Longrightarrow> lost_ticker t (image_failed n s)"
  by (simp add: image_failed_def Let_def split: option.splits load.splits)

lemma lost_step: "lost_ticker t s \<Longrightarrow> lost_ticker t (step P ev s)"
  by (cases ev) simp_all

lemma lost_run: "lost_ticker t s \<Longrightarrow> lost_ticker t (run P evs s)"
  unfolding run_def by (induction evs arbitrary: s) (simp_all add: lost_step)

lemma run_append: "run P (xs @ ys) s = run P ys (run P xs s)"
  by (simp add: run_def)

text \<open>
  C8 does not hold of the script. (1) \<^verbatim>\<open>createNewEnemy\<close> starts the editor ticker
  (handle 1) and \<^verbatim>\<open>cancelEdit\<close> hides the editor without stopping it: the ticker is
  live on a hidden surface. (2) After the save of \<open>rat_saved\<close> the list has been rendered
  twice before either thumbnail image arrived, so both load callbacks start a ticker on the
  same canvas and the second overwrites the handle of the first in
  \<^verbatim>\<open>enemyListAnimations\<close>: ticker 4 is live and its handle is held nowhere. (3) When the
  list is rendered again (here by \<^verbatim>\<open>cancelEdit\<close>), the canvas is removed and ticker 4
  goes on drawing on it, beside the editor ticker 3 on the hidden editor. (4) Whatever
  events follow the save, ticker 4 is never cancelled.
\<close>

theorem ticker_leak:
  "stale_tickers (run P0 [CreateNewEnemy, CancelEdit] init) = [1] \<and>
   leaked_tickers (run P0 rat_saved init) = [4] \<and>
   stale_tickers (run P0 (rat_saved @ [CancelEdit]) init) = [3, 4] \<and>
   lost_ticker 4 (run P0 (rat_saved @ evs) init)"
proof -
  have 1: "stale_tickers (run P0 [CreateNewEnemy, CancelEdit] init) = [1]"
    by code_simp
  have 2: "leaked_tickers (run P0 rat_saved init) = [4]"
    by code_simp
  have 3: "stale_tickers (run P0 (rat_saved @ [CancelEdit]) init) = [3, 4]"
    by code_simp
  have "lost_ticker 4 (run P0 rat_saved init)"
    by code_simp
  then have "lost_ticker 4 (run P0 evs (run P0 rat_saved init))"
    by (rule lost_run)
  then have 4: "lost_ticker 4 (run P0 (rat_saved @ evs) init)"
    by (simp add: run_append)
  from 1 2 3 4 show ?thesis by simp
qed

theorem ticker_leak_witness:
  "stale_tickers (run P0 [CreateNewEnemy, CancelEdit] init) = [1] \<and>
   lost_ticker 4
     (run P0 (rat_saved @ [CancelEdit, DataLoaded (Some []), TogglePreviewPanel, TimerFired 4]) init)"
  using ticker_leak [of "[CancelEdit, DataLoaded (Some []), TogglePreviewPanel, TimerFired 4]"]
  by simp

end
